theory Spec2Isabelle
  imports Complex_Main
begin

section \<open>JavaScript values that reach the conversion service\<close>

text \<open>
  The service (\<^verbatim>\<open>src/server.js\<close>) receives its request body and the rate provider's
  reply as parsed JSON, and coerces them with the language's own rules (\<^verbatim>\<open>!amount\<close>,
  \<^verbatim>\<open>isNaN(amount)\<close>, \<^verbatim>\<open>amount <= 0\<close>, \<^verbatim>\<open>amount * rate\<close>, \<^verbatim>\<open>parseFloat\<close>, \<^verbatim>\<open>toFixed\<close>,
  template literals). This section embeds those rules as ECMAScript defines them.

  A Number is an IEEE-754 double: \<open>Fin q\<close> carries the exact rational value of a finite
  double, and every arithmetic result is rounded back to a double by \<open>to_double\<close>
  (round to nearest, ties to even, gradual underflow, overflow to infinity). The sign of
  zero is not represented: no expression of the service distinguishes \<open>-0\<close> from \<open>0\<close>.
\<close>

datatype jsnum = Fin rat | PosInf | NegInf | NaN

text \<open>
  The members of a JSON body that the service reads are modelled for the primitive
  values; \<open>JBuiltin k\<close> is the member \<open>k\<close> that every object literal inherits from
  \<^verbatim>\<open>Object.prototype\<close> (a function, or the prototype itself for \<^verbatim>\<open>__proto__\<close>).
  Array- and object-valued members are outside the model, and a string is a sequence of
  code units below 256.
\<close>

datatype jsval =
    JUndefined
  | JNull
  | JBool bool
  | JNum jsnum
  | JStr string
  | JBuiltin string

datatype js_error =
    TypeError
  | HttpError "nat option"

subsection \<open>Rounding a rational to a double\<close>

function width :: "int \<Rightarrow> int \<Rightarrow> int" where
  "width b n = (if n \<le> 0 \<or> b < 2 then 0 else 1 + width b (n div b))"
  by pat_completeness auto
termination
  by (relation "measure (\<lambda>(b, n). nat n)") (auto intro!: int_div_less_self)

declare width.simps [simp del]

definition pow_int :: "rat \<Rightarrow> int \<Rightarrow> rat" where
  "pow_int b k = (if 0 \<le> k then b ^ nat k else 1 / b ^ nat (- k))"

text \<open>\<open>ilog b q\<close> is the integer \<open>k\<close> with \<open>b ^ k \<le> q < b ^ (k + 1)\<close>, for \<open>q > 0\<close>.\<close>

definition ilog :: "int \<Rightarrow> rat \<Rightarrow> int" where
  "ilog b q = (if 1 \<le> q then width b \<lfloor>q\<rfloor> - 1 else - width b (\<lceil>1 / q\<rceil> - 1))"

definition round_half_even :: "rat \<Rightarrow> int" where
  "round_half_even y = (let f = \<lfloor>y\<rfloor>; r = y - of_int f
     in if r < 1 / 2 then f else if 1 / 2 < r then f + 1 else if even f then f else f + 1)"

definition to_double :: "rat \<Rightarrow> jsnum" where
  "to_double q = (if q = 0 then Fin 0 else
     (let m = \<bar>q\<bar>; e = max (ilog 2 m) (- 1022); u = pow_int 2 (e - 52);
          v = of_int (round_half_even (m / u)) * u
      in if 2 ^ 1024 \<le> v then (if q < 0 then NegInf else PosInf)
         else Fin (if q < 0 then - v else v)))"

text \<open>The \<^verbatim>\<open>*\<close> operator on two Numbers.\<close>

fun js_mul :: "jsnum \<Rightarrow> jsnum \<Rightarrow> jsnum" where
  "js_mul NaN _ = NaN"
| "js_mul _ NaN = NaN"
| "js_mul (Fin a) (Fin b) = to_double (a * b)"
| "js_mul (Fin a) PosInf = (if a = 0 then NaN else if a < 0 then NegInf else PosInf)"
| "js_mul (Fin a) NegInf = (if a = 0 then NaN else if a < 0 then PosInf else NegInf)"
| "js_mul PosInf (Fin b) = (if b = 0 then NaN else if b < 0 then NegInf else PosInf)"
| "js_mul NegInf (Fin b) = (if b = 0 then NaN else if b < 0 then PosInf else NegInf)"
| "js_mul PosInf PosInf = PosInf"
| "js_mul PosInf NegInf = NegInf"
| "js_mul NegInf PosInf = NegInf"
| "js_mul NegInf NegInf = PosInf"

subsection \<open>Number to String\<close>

definition digit_char :: "int \<Rightarrow> char" where
  "digit_char d = ''0123456789'' ! nat d"

function digits_of :: "int \<Rightarrow> string" where
  "digits_of n = (if n < 10 then [digit_char n] else digits_of (n div 10) @ [digit_char (n mod 10)])"
  by pat_completeness auto
termination
  by (relation "measure nat") (auto intro!: int_div_less_self)

declare digits_of.simps [simp del]

text \<open>
  \<^verbatim>\<open>Number::toString\<close> picks the shortest decimal \<open>s \<times> 10 ^ (n - k)\<close>, with \<open>k\<close> digits in
  \<open>s\<close>, that reads back as the same double, and among those the one nearest to it.
  \<open>find_digits\<close> tries \<open>k = 1, 2, \<dots>\<close>; seventeen digits always suffice for a double,
  so the fuel of \<open>shortest_digits\<close> is never used up on one.
\<close>

fun find_digits :: "nat \<Rightarrow> int \<Rightarrow> rat \<Rightarrow> int \<Rightarrow> int \<times> int" where
  "find_digits 0 k x n = (k, \<lfloor>x / pow_int 10 (n - k)\<rfloor>)"
| "find_digits (Suc fuel) k x n =
     (let u = pow_int 10 (n - k); lo = \<lfloor>x / u\<rfloor>; hi = lo + 1;
          ok_lo = (to_double (of_int lo * u) = Fin x);
          ok_hi = (hi < 10 ^ nat k \<and> to_double (of_int hi * u) = Fin x)
      in if ok_lo \<and> ok_hi then
           (let dl = x - of_int lo * u; dh = of_int hi * u - x
            in if dl < dh then (k, lo) else if dh < dl then (k, hi)
               else if even lo then (k, lo) else (k, hi))
         else if ok_lo then (k, lo)
         else if ok_hi then (k, hi)
         else find_digits fuel (k + 1) x n)"

definition shortest_digits :: "rat \<Rightarrow> int \<times> int \<times> int" where
  "shortest_digits x =
     (let n = ilog 10 x + 1
      in if to_double (pow_int 10 n) = Fin x then (n + 1, 1, 1)
         else (case find_digits 17 1 x n of (k, s) \<Rightarrow> (n, k, s)))"

definition pos_to_string :: "rat \<Rightarrow> string" where
  "pos_to_string x = (case shortest_digits x of (n, k, s) \<Rightarrow>
     (let ds = digits_of s
      in if k \<le> n \<and> n \<le> 21 then ds @ replicate (nat (n - k)) (CHR ''0'')
         else if 0 < n \<and> n \<le> 21 then take (nat n) ds @ ''.'' @ drop (nat n) ds
         else if - 6 < n \<and> n \<le> 0 then ''0.'' @ replicate (nat (- n)) (CHR ''0'') @ ds
         else (let e = n - 1; es = (if e < 0 then ''-'' else ''+'') @ digits_of \<bar>e\<bar>
               in if k = 1 then ds @ ''e'' @ es
                  else take 1 ds @ ''.'' @ drop 1 ds @ ''e'' @ es)))"

fun number_to_string :: "jsnum \<Rightarrow> string" where
  "number_to_string NaN = ''NaN''"
| "number_to_string PosInf = ''Infinity''"
| "number_to_string NegInf = ''-Infinity''"
| "number_to_string (Fin q) =
     (if q = 0 then ''0'' else if q < 0 then ''-'' @ pos_to_string (- q) else pos_to_string q)"

text \<open>\<^verbatim>\<open>Number.prototype.toFixed(f)\<close>, for \<open>0 \<le> f \<le> 100\<close> (the service passes 2 and 4).\<close>

definition fixed_digits :: "nat \<Rightarrow> int \<Rightarrow> string" where
  "fixed_digits f n =
     (let m = (if n = 0 then ''0'' else digits_of n)
      in if f = 0 then m
         else (let m1 = (if length m \<le> f then replicate (f + 1 - length m) (CHR ''0'') @ m else m);
                   k = length m1
               in take (k - f) m1 @ ''.'' @ drop (k - f) m1))"

fun toFixed :: "jsnum \<Rightarrow> nat \<Rightarrow> string" where
  "toFixed (Fin q) f =
     (let s = (if q < 0 then ''-'' else ''''); a = \<bar>q\<bar>
      in if 10 ^ 21 \<le> a then s @ number_to_string (Fin a)
         else s @ fixed_digits f \<lfloor>a * 10 ^ f + 1 / 2\<rfloor>)"
| "toFixed x f = number_to_string x"

subsection \<open>String to Number\<close>

definition is_digit :: "char \<Rightarrow> bool" where
  "is_digit c = (c \<in> set ''0123456789'')"

definition is_space :: "char \<Rightarrow> bool" where
  "is_space c = (c \<in> {CHR 0x09, CHR 0x0A, CHR 0x0B, CHR 0x0C, CHR 0x0D, CHR 0x20, CHR 0xA0})"

definition digit_val :: "char \<Rightarrow> int" where
  "digit_val c =
     (if is_digit c then of_char c - 48
      else if c \<in> set ''abcdef'' then of_char c - 87
      else if c \<in> set ''ABCDEF'' then of_char c - 55
      else 36)"

definition digits_val :: "int \<Rightarrow> string \<Rightarrow> int" where
  "digits_val b cs = foldl (\<lambda>a c. b * a + digit_val c) 0 cs"

definition parse_exponent :: "string \<Rightarrow> int \<times> string" where
  "parse_exponent r = (case r of
       [] \<Rightarrow> (0, r)
     | c # r1 \<Rightarrow>
         if c = CHR ''e'' \<or> c = CHR ''E'' then
           (let (sg, r2) = (case r1 of
                    [] \<Rightarrow> (1, r1)
                  | s # t \<Rightarrow> if s = CHR ''+'' then (1, t)
                             else if s = CHR ''-'' then (- 1, t) else (1, r1));
                ds = takeWhile is_digit r2
            in if ds = [] then (0, r) else (sg * digits_val 10 ds, dropWhile is_digit r2))
         else (0, r))"

text \<open>The longest prefix that is a \<^verbatim>\<open>StrUnsignedDecimalLiteral\<close>, with the rest of the input.\<close>

definition parse_unsigned :: "string \<Rightarrow> (jsnum \<times> string) option" where
  "parse_unsigned cs =
     (if take 8 cs = ''Infinity'' then Some (PosInf, drop 8 cs)
      else (let ip = takeWhile is_digit cs; r1 = dropWhile is_digit cs;
                dot = (r1 \<noteq> [] \<and> hd r1 = CHR ''.'');
                fp = (if dot then takeWhile is_digit (tl r1) else []);
                r2 = (if dot then dropWhile is_digit (tl r1) else r1)
            in if ip = [] \<and> fp = [] then None
               else (case parse_exponent r2 of (ex, r3) \<Rightarrow>
                 Some (to_double (of_int (digits_val 10 (ip @ fp)) * pow_int 10 (ex - int (length fp))),
                       r3))))"

fun js_neg :: "jsnum \<Rightarrow> jsnum" where
  "js_neg (Fin q) = Fin (- q)"
| "js_neg PosInf = NegInf"
| "js_neg NegInf = PosInf"
| "js_neg NaN = NaN"

definition parse_decimal :: "string \<Rightarrow> (jsnum \<times> string) option" where
  "parse_decimal cs = (case cs of
       [] \<Rightarrow> None
     | c # r \<Rightarrow>
         if c = CHR ''+'' then parse_unsigned r
         else if c = CHR ''-'' then map_option (\<lambda>(v, rest). (js_neg v, rest)) (parse_unsigned r)
         else parse_unsigned cs)"

text \<open>\<^verbatim>\<open>parseFloat\<close> applied to a string: leading white space is skipped, trailing text ignored.\<close>

definition parse_float_string :: "string \<Rightarrow> jsnum" where
  "parse_float_string s = (case parse_decimal (dropWhile is_space s) of
       None \<Rightarrow> NaN
     | Some (v, rest) \<Rightarrow> v)"

definition radix_literal :: "int \<Rightarrow> string \<Rightarrow> jsnum" where
  "radix_literal b ds =
     (if ds \<noteq> [] \<and> (\<forall>c \<in> set ds. digit_val c < b) then to_double (of_int (digits_val b ds)) else NaN)"

text \<open>\<^verbatim>\<open>StringToNumber\<close>: the whole trimmed string has to be a numeric literal.\<close>

definition string_to_number :: "string \<Rightarrow> jsnum" where
  "string_to_number s =
     (let t = rev (dropWhile is_space (rev (dropWhile is_space s)))
      in if t = [] then Fin 0
         else if take 2 t = ''0x'' \<or> take 2 t = ''0X'' then radix_literal 16 (drop 2 t)
         else if take 2 t = ''0o'' \<or> take 2 t = ''0O'' then radix_literal 8 (drop 2 t)
         else if take 2 t = ''0b'' \<or> take 2 t = ''0B'' then radix_literal 2 (drop 2 t)
         else (case parse_decimal t of
                 Some (v, []) \<Rightarrow> v
               | _ \<Rightarrow> NaN))"

subsection \<open>The coercions \<^verbatim>\<open>ToBoolean\<close>, \<^verbatim>\<open>ToNumber\<close>, \<^verbatim>\<open>ToString\<close>\<close>

fun to_boolean :: "jsval \<Rightarrow> bool" where
  "to_boolean JUndefined = False"
| "to_boolean JNull = False"
| "to_boolean (JBool b) = b"
| "to_boolean (JNum (Fin q)) = (q \<noteq> 0)"
| "to_boolean (JNum NaN) = False"
| "to_boolean (JNum _) = True"
| "to_boolean (JStr s) = (s \<noteq> [])"
| "to_boolean (JBuiltin k) = True"

fun to_number :: "jsval \<Rightarrow> jsnum" where
  "to_number JUndefined = NaN"
| "to_number JNull = Fin 0"
| "to_number (JBool b) = Fin (if b then 1 else 0)"
| "to_number (JNum n) = n"
| "to_number (JStr s) = string_to_number s"
| "to_number (JBuiltin k) = NaN"

fun to_string :: "jsval \<Rightarrow> string" where
  "to_string JUndefined = ''undefined''"
| "to_string JNull = ''null''"
| "to_string (JBool b) = (if b then ''true'' else ''false'')"
| "to_string (JNum n) = number_to_string n"
| "to_string (JStr s) = s"
| "to_string (JBuiltin k) =
     (if k = ''__proto__'' then ''[object Object]''
      else ''function '' @ (if k = ''constructor'' then ''Object'' else k) @ ''() { [native code] }'')"

definition parseFloat :: "jsval \<Rightarrow> jsnum" where
  "parseFloat v = parse_float_string (to_string v)"

definition isNaN :: "jsval \<Rightarrow> bool" where
  "isNaN v = (to_number v = NaN)"

text \<open>\<^verbatim>\<open>x > 1\<close> and \<^verbatim>\<open>v <= 0\<close>; a comparison with \<^verbatim>\<open>NaN\<close> is false.\<close>

fun gt_one :: "jsnum \<Rightarrow> bool" where
  "gt_one (Fin q) = (1 < q)"
| "gt_one PosInf = True"
| "gt_one NegInf = False"
| "gt_one NaN = False"

fun le_zero :: "jsnum \<Rightarrow> bool" where
  "le_zero (Fin q) = (q \<le> 0)"
| "le_zero PosInf = False"
| "le_zero NegInf = True"
| "le_zero NaN = False"

subsection \<open>Dates and padding\<close>

definition padStart :: "nat \<Rightarrow> string \<Rightarrow> string" where
  "padStart w s = replicate (w - length s) (CHR ''0'') @ s"

text \<open>
  \<^verbatim>\<open>new Date().toISOString()\<close> for the instant \<open>ms\<close> milliseconds after the epoch, in UTC
  (the proleptic Gregorian calendar, days counted from 1 March of year 0).
\<close>

definition toISOString :: "nat \<Rightarrow> string" where
  "toISOString ms =
     (let days = int ms div 86400000; r = int ms mod 86400000;
          z = days + 719468; era = z div 146097; doe = z mod 146097;
          yoe = (doe - doe div 1460 + doe div 36524 - doe div 146096) div 365;
          doy = doe - (365 * yoe + yoe div 4 - yoe div 100);
          mp = (5 * doy + 2) div 153;
          d = doy - (153 * mp + 2) div 5 + 1;
          m = (if mp < 10 then mp + 3 else mp - 9);
          y = yoe + era * 400 + (if m \<le> 2 then 1 else 0)
      in (if y \<le> 9999 then padStart 4 (digits_of y) else ''+'' @ padStart 6 (digits_of y))
         @ ''-'' @ padStart 2 (digits_of m) @ ''-'' @ padStart 2 (digits_of d)
         @ ''T'' @ padStart 2 (digits_of (r div 3600000))
         @ '':'' @ padStart 2 (digits_of (r mod 3600000 div 60000))
         @ '':'' @ padStart 2 (digits_of (r mod 60000 div 1000))
         @ ''.'' @ padStart 3 (digits_of (r mod 1000)) @ ''Z'')"

section \<open>Inbuilt market analysis generator\<close>

text \<open>
  \<^verbatim>\<open>generateInbuiltAnalysis(baseCurrency, targetCurrency, rate)\<close>. The table \<^verbatim>\<open>currencies\<close> is an
  object literal, so \<^verbatim>\<open>currencies[code]\<close> finds the five own entries and, for any other
  code, whatever \<^verbatim>\<open>Object.prototype\<close> has under that name: a member without
  \<^verbatim>\<open>strength\<close> and without \<^verbatim>\<open>drivers\<close>. Only a code found in neither place yields
  \<^verbatim>\<open>undefined\<close> and so the neutral default of the \<^verbatim>\<open>||\<close>.
\<close>

record currency_info =
  strength :: "string option"
  drivers :: "string list option"

definition currencies :: "(string \<times> currency_info) list" where
  "currencies =
     [(''USD'', \<lparr>strength = Some ''strong'',
                drivers = Some [''Fed policy'', ''economic growth'', ''safe-haven demand'']\<rparr>),
      (''EUR'', \<lparr>strength = Some ''moderate'',
                drivers = Some [''ECB policy'', ''energy prices'', ''manufacturing data'']\<rparr>),
      (''GBP'', \<lparr>strength = Some ''moderate'',
                drivers = Some [''BoE decisions'', ''Brexit impacts'', ''services sector'']\<rparr>),
      (''JPY'', \<lparr>strength = Some ''weak'',
                drivers = Some [''BoJ ultra-loose policy'', ''trade balance'', ''risk sentiment'']\<rparr>),
      (''AUD'', \<lparr>strength = Some ''commodity-linked'',
                drivers = Some [''China demand'', ''commodity prices'', ''RBA stance'']\<rparr>)]"

definition object_prototype_keys :: "string list" where
  "object_prototype_keys =
     [''constructor'', ''__defineGetter__'', ''__defineSetter__'', ''hasOwnProperty'',
      ''__lookupGetter__'', ''__lookupSetter__'', ''isPrototypeOf'', ''propertyIsEnumerable'',
      ''toString'', ''valueOf'', ''__proto__'', ''toLocaleString'']"

definition neutral_info :: currency_info where
  "neutral_info = \<lparr>strength = Some ''neutral'',
                    drivers = Some [''interest rates'', ''economic data'', ''geopolitical factors'']\<rparr>"

text \<open>\<^verbatim>\<open>currencies[code]\<close>; \<open>None\<close> is \<^verbatim>\<open>undefined\<close>.\<close>

definition currencies_get :: "string \<Rightarrow> currency_info option" where
  "currencies_get code = (case map_of currencies code of
       Some info \<Rightarrow> Some info
     | None \<Rightarrow> if code \<in> set object_prototype_keys
               then Some \<lparr>strength = None, drivers = None\<rparr> else None)"

text \<open>\<^verbatim>\<open>currencies[code] || { strength: "neutral", ... }\<close>; every object is truthy.\<close>

definition info_or_neutral :: "string \<Rightarrow> currency_info" where
  "info_or_neutral code = (case currencies_get code of Some info \<Rightarrow> info | None \<Rightarrow> neutral_info)"

fun join :: "string \<Rightarrow> string list \<Rightarrow> string" where
  "join sep [] = []"
| "join sep [x] = x"
| "join sep (x # y # ys) = x @ sep @ join sep (y # ys)"

text \<open>\<^verbatim>\<open>info.drivers.slice(0, 2).join(' and ')\<close>; reading \<^verbatim>\<open>slice\<close> of \<^verbatim>\<open>undefined\<close> throws.\<close>

definition drivers_phrase :: "currency_info \<Rightarrow> js_error + string" where
  "drivers_phrase info = (case drivers info of
       None \<Rightarrow> Inl TypeError
     | Some ds \<Rightarrow> Inr (join '' and '' (take 2 ds)))"

definition generateInbuiltAnalysis :: "string \<Rightarrow> string \<Rightarrow> jsval \<Rightarrow> js_error + string" where
  "generateInbuiltAnalysis baseCurrency targetCurrency rate_in =
     (let baseInfo = info_or_neutral baseCurrency;
          targetInfo = info_or_neutral targetCurrency;
          trend = (if gt_one (parseFloat rate_in) then ''strengthening'' else ''weakening'');
          outlook = (if strength baseInfo = Some ''strong'' \<and> strength targetInfo \<noteq> Some ''strong''
                     then ''bullish'' else ''neutral'')
      in case drivers_phrase baseInfo of
           Inl e \<Rightarrow> Inl e
         | Inr baseDrivers \<Rightarrow>
             (case drivers_phrase targetInfo of
                Inl e \<Rightarrow> Inl e
              | Inr targetDrivers \<Rightarrow>
                  Inr (''The '' @ baseCurrency @ '' is currently '' @ trend @ '' against ''
                       @ targetCurrency @ '' at 1:'' @ to_string rate_in
                       @ ''. Key drivers include '' @ baseDrivers @ '' for '' @ baseCurrency
                       @ '' and '' @ targetDrivers @ '' for '' @ targetCurrency
                       @ ''. Short-term outlook appears '' @ outlook
                       @ '', though traders should monitor upcoming economic releases for confirmation. ''
                       @ ''This automated analysis is based on typical market drivers for these currencies.'')))"

section \<open>Gemini AI service\<close>

text \<open>
  What the generative-text service does is not part of the program: \<open>AiText txt\<close> is a
  completed request whose \<^verbatim>\<open>text()\<close> is \<open>txt\<close>, \<open>AiError\<close> is anything thrown inside the
  \<^verbatim>\<open>try\<close> block. Each call of \<open>getMarketAnalysis\<close> makes one attempt, recorded with its
  prompt.
\<close>

datatype ai_reply = AiText string | AiError

datatype effect =
    CacheHas string
  | CacheGet string
  | CacheSet string
  | RateFetch string
  | CommentaryAttempt string

definition prompt :: "string \<Rightarrow> string \<Rightarrow> jsval \<Rightarrow> string" where
  "prompt baseCurrency targetCurrency rate_in =
     ''As senior financial analyst at Global FX, provide concise professional analysis (60-80 words) about ''
     @ baseCurrency @ '' to '' @ targetCurrency @ '' exchange trends. Include:'' @ [CHR 0x0A]
     @ ''    - Key economic drivers'' @ [CHR 0x0A]
     @ ''    - Recent central bank impact'' @ [CHR 0x0A]
     @ ''    - Short-term technical outlook'' @ [CHR 0x0A]
     @ ''    Current rate: 1 '' @ baseCurrency @ '' = '' @ to_string rate_in @ '' '' @ targetCurrency
     @ ''. '' @ [CHR 0x0A]
     @ ''    Use professional tone, avoid speculation.''"

definition getMarketAnalysis ::
  "ai_reply \<Rightarrow> string \<Rightarrow> string \<Rightarrow> jsval \<Rightarrow> (js_error + string) \<times> effect list" where
  "getMarketAnalysis reply baseCurrency targetCurrency rate_in =
     (case reply of
        AiText txt \<Rightarrow> (Inr txt, [CommentaryAttempt (prompt baseCurrency targetCurrency rate_in)])
      | AiError \<Rightarrow> (generateInbuiltAnalysis baseCurrency targetCurrency rate_in,
                    [CommentaryAttempt (prompt baseCurrency targetCurrency rate_in)]))"

section \<open>Rate cache\<close>

text \<open>
  \<^verbatim>\<open>new NodeCache({ stdTTL: 600 })\<close>: \<^verbatim>\<open>set\<close> stamps the entry with the instant it expires,
  the current time plus \<open>stdTTL\<close> seconds in milliseconds; \<^verbatim>\<open>has\<close> and \<^verbatim>\<open>get\<close> delete an
  entry whose stamp lies before the current time and answer as if it had never been
  there.

  The cache keeps, and \<^verbatim>\<open>get\<close> hands out, a clone of the object stored. The clone of a
  quote differs from the quote in one case only: a rate that is \<^verbatim>\<open>Object.prototype\<close>
  itself (\<open>JBuiltin ''__proto__''\<close>) is cloned into an object without prototype, and
  such an object has no conversion to a number: \<^verbatim>\<open>ToNumber\<close> throws a \<^verbatim>\<open>TypeError\<close>. An
  entry records the quote as it was stored; \<open>cached_to_number\<close> is \<^verbatim>\<open>ToNumber\<close> on the
  rate of its clone.
\<close>

record quote =
  rate :: jsval
  analysis :: string
  timestamp :: string

record cache_entry =
  stored :: quote
  expires :: nat

type_synonym cache = "string \<rightharpoonup> cache_entry"

definition stdTTL :: nat where
  "stdTTL = 600"

definition cache_check :: "nat \<Rightarrow> cache \<Rightarrow> string \<Rightarrow> bool \<times> cache" where
  "cache_check now c k = (case c k of
       None \<Rightarrow> (False, c)
     | Some e \<Rightarrow> if expires e < now then (False, c(k := None)) else (True, c))"

definition cache_has :: "nat \<Rightarrow> cache \<Rightarrow> string \<Rightarrow> bool \<times> cache" where
  "cache_has now c k = cache_check now c k"

definition cache_get :: "nat \<Rightarrow> cache \<Rightarrow> string \<Rightarrow> quote option \<times> cache" where
  "cache_get now c k = (case cache_check now c k of
       (True, c1) \<Rightarrow> (map_option stored (c1 k), c1)
     | (False, c1) \<Rightarrow> (None, c1))"

definition cache_set :: "nat \<Rightarrow> cache \<Rightarrow> string \<Rightarrow> quote \<Rightarrow> cache" where
  "cache_set now c k q = c(k \<mapsto> \<lparr>stored = q, expires = now + stdTTL * 1000\<rparr>)"

definition cached_to_number :: "jsval \<Rightarrow> js_error + jsnum" where
  "cached_to_number v = (if v = JBuiltin ''__proto__'' then Inl TypeError else Inr (to_number v))"

section \<open>Conversion endpoint\<close>

text \<open>
  \<^verbatim>\<open>app.post('/api/convert', ...)\<close>. The request body carries \<^verbatim>\<open>amount\<close> (any JSON
  primitive, \<open>JUndefined\<close> when the member is missing) and the two currency codes, which
  the interface declares as strings and the handler passes through unchecked.

  The outside world of one request is an \<open>env\<close>: what \<^verbatim>\<open>axios.get\<close> does (\<open>FxError st\<close>:
  the promise rejects, \<open>st\<close> being \<^verbatim>\<open>error.response?.status\<close>; \<open>FxOk rs\<close>: it resolves, \<open>rs\<close>
  being the object under \<^verbatim>\<open>data.rates\<close>, or \<open>None\<close> when there is none), what the
  generative-text service does, and how many milliseconds each of the two awaited
  calls takes. The handler starts at the instant \<open>now\<close>; its synchronous statements
  take no time.
\<close>

record request =
  amount :: jsval
  from_currency :: string
  to_currency :: string

record response =
  status :: nat
  body :: "(string \<times> jsval) list"

datatype fx_reply =
    FxError "nat option"
  | FxOk "(string \<rightharpoonup> jsval) option"

record env =
  fx :: fx_reply
  fx_ms :: nat
  ai :: ai_reply
  ai_ms :: nat

definition CACHE_PREFIX :: string where
  "CACHE_PREFIX = ''FX_RATE_''"

definition cacheKey :: "string \<Rightarrow> string \<Rightarrow> string" where
  "cacheKey from to = CACHE_PREFIX @ from @ ''_'' @ to"

definition fx_url :: "string \<Rightarrow> string \<Rightarrow> string" where
  "fx_url from to = ''https://api.frankfurter.app/latest?from='' @ from @ ''&to='' @ to"

text \<open>\<^verbatim>\<open>fxResponse.data.rates[to_currency]\<close> on the parsed object \<open>rs\<close>.\<close>

definition rates_get :: "(string \<rightharpoonup> jsval) \<Rightarrow> string \<Rightarrow> jsval" where
  "rates_get rs code = (case rs code of
       Some x \<Rightarrow> x
     | None \<Rightarrow> if code \<in> set object_prototype_keys then JBuiltin code else JUndefined)"

text \<open>\<^verbatim>\<open>!amount || isNaN(amount) || amount <= 0\<close>\<close>

definition invalid_amount :: "jsval \<Rightarrow> bool" where
  "invalid_amount a = (\<not> to_boolean a \<or> isNaN a \<or> le_zero (to_number a))"

text \<open>
  The \<^verbatim>\<open>try\<close> block: its outcome (a response, or the error thrown), the cache it leaves
  behind, and the cache operations and outbound calls it made, in order. A response is
  the status and the object that the handler passes to \<^verbatim>\<open>res.status(...).json(...)\<close>, or
  to \<^verbatim>\<open>res.json(...)\<close> with the status 200 that the framework supplies.
\<close>

definition convert_try ::
  "env \<Rightarrow> nat \<Rightarrow> cache \<Rightarrow> request \<Rightarrow> (js_error + response) \<times> cache \<times> effect list" where
  "convert_try e now c req =
     (let key = cacheKey (from_currency req) (to_currency req)
      in if invalid_amount (amount req) then
           (Inr \<lparr>status = 400,
                 body = [(''error'', JStr ''Invalid amount''), (''code'', JStr ''INV-AMT'')]\<rparr>,
            c, [])
         else (case cache_has now c key of (hit, c1) \<Rightarrow>
           if hit then
             (case cache_get now c1 key of (got, c2) \<Rightarrow>
               (case got of
                  None \<Rightarrow> (Inl TypeError, c2, [CacheHas key, CacheGet key])
                | Some cached \<Rightarrow>
                    (case cached_to_number (rate cached) of
                       Inl err \<Rightarrow> (Inl err, c2, [CacheHas key, CacheGet key])
                     | Inr factor \<Rightarrow>
                         (Inr \<lparr>status = 200,
                               body = [(''rate'', rate cached),
                                       (''analysis'', JStr (analysis cached)),
                                       (''timestamp'', JStr (timestamp cached)),
                                       (''cached'', JBool True),
                                       (''amount'', JNum (parseFloat (amount req))),
                                       (''converted_amount'',
                                        JStr (toFixed (js_mul (to_number (amount req)) factor) 2))]\<rparr>,
                          c2, [CacheHas key, CacheGet key]))))
           else
             (let fetched = [CacheHas key, RateFetch (fx_url (from_currency req) (to_currency req))]
              in case fx e of
                   FxError st \<Rightarrow> (Inl (HttpError st), c1, fetched)
                 | FxOk None \<Rightarrow> (Inl TypeError, c1, fetched)
                 | FxOk (Some rs) \<Rightarrow>
                     (let r = rates_get rs (to_currency req)
                      in case getMarketAnalysis (ai e) (from_currency req) (to_currency req) r of
                           (Inl err, asked) \<Rightarrow> (Inl err, c1, fetched @ asked)
                         | (Inr text, asked) \<Rightarrow>
                             (let t1 = now + fx_ms e + ai_ms e;
                                  c2 = cache_set t1 c1 key
                                         \<lparr>rate = r, analysis = text, timestamp = toISOString t1\<rparr>;
                                  done = fetched @ asked @ [CacheSet key]
                              in case r of
                                   JNum n \<Rightarrow>
                                     (Inr \<lparr>status = 200,
                                           body = [(''from_currency'', JStr (from_currency req)),
                                                   (''to_currency'', JStr (to_currency req)),
                                                   (''rate'', JNum (parse_float_string (toFixed n 4))),
                                                   (''converted_amount'',
                                                    JStr (toFixed (js_mul (to_number (amount req)) n) 2)),
                                                   (''analysis'', JStr text),
                                                   (''timestamp'', JStr (toISOString t1)),
                                                   (''source'', JStr ''Frankfurter.app'')]\<rparr>,
                                      c2, done)
                                 | _ \<Rightarrow> (Inl TypeError, c2, done))))))"

text \<open>\<^verbatim>\<open>error.response?.status || 500\<close>\<close>

definition status_of :: "js_error \<Rightarrow> nat" where
  "status_of err = (case err of
       HttpError (Some st) \<Rightarrow> if st = 0 then 500 else st
     | _ \<Rightarrow> 500)"

text \<open>
  The whole handler: the \<^verbatim>\<open>catch\<close> turns any error into an \<^verbatim>\<open>SRV-\<close> response. The result is
  what the handler hands to the framework. Writing it to the connection is the
  framework's part: it does so for a status from 100 to 999 and throws for any other,
  which only an upstream reply carrying such a status can bring about; for that reply
  the result below is what \<^verbatim>\<open>res.status\<close> and \<^verbatim>\<open>json\<close> were given, not what the client
  received.
\<close>

definition post_api_convert ::
  "env \<Rightarrow> nat \<Rightarrow> cache \<Rightarrow> request \<Rightarrow> response \<times> cache \<times> effect list" where
  "post_api_convert e now c req = (case convert_try e now c req of
       (Inr res, c', effs) \<Rightarrow> (res, c', effs)
     | (Inl err, c', effs) \<Rightarrow>
         (\<lparr>status = status_of err,
           body = [(''error'', JStr ''Conversion service unavailable''),
                   (''code'', JStr (''SRV-'' @ padStart 3 (digits_of (int (status_of err)))))]\<rparr>,
          c', effs))"

definition is_fetch :: "effect \<Rightarrow> bool" where
  "is_fetch x = (case x of RateFetch u \<Rightarrow> True | _ \<Rightarrow> False)"

definition live_fetches :: "effect list \<Rightarrow> nat" where
  "live_fetches effs = length (filter is_fetch effs)"

text \<open>
  A response is a conversion result when it carries a \<^verbatim>\<open>converted_amount\<close>; the two
  error bodies do not.
\<close>

definition is_conversion :: "response \<Rightarrow> bool" where
  "is_conversion res = (map_of (body res) ''converted_amount'' \<noteq> None)"

section \<open>The handler, branch by branch\<close>

lemma getMarketAnalysis_attempt:
  "snd (getMarketAnalysis reply b t r) = [CommentaryAttempt (prompt b t r)]"
  by (cases reply) (simp_all add: getMarketAnalysis_def)

lemma getMarketAnalysis_eq:
  "getMarketAnalysis reply b t r =
     (fst (getMarketAnalysis reply b t r), [CommentaryAttempt (prompt b t r)])"
  using getMarketAnalysis_attempt [of reply b t r] by (simp add: prod_eq_iff)

lemma cache_has_hit:
  "fst (cache_has now c k) = (\<exists>ent. c k = Some ent \<and> \<not> expires ent < now)"
  by (simp add: cache_has_def cache_check_def split: option.splits)

lemma cache_has_rest:
  "snd (cache_has now c k) = (if fst (cache_has now c k) then c else c(k := None))"
  by (auto simp: cache_has_def cache_check_def split: option.splits)

lemma cache_has_eq:
  "cache_has now c k =
     (fst (cache_has now c k), if fst (cache_has now c k) then c else c(k := None))"
  using cache_has_rest [of now c k] by (simp add: prod_eq_iff)

lemma digits_of_numeral:
  "digits_of (numeral k) =
     (if numeral k < (10::int) then [digit_char (numeral k)]
      else digits_of (numeral k div 10) @ [digit_char (numeral k mod 10)])"
  by (rule digits_of.simps)

lemma digits_of_small: "digits_of 0 = ''0''" "digits_of 1 = ''1''"
  by (simp_all add: digits_of.simps [of 0] digits_of.simps [of 1] digit_char_def)

lemma width_numeral:
  "width b (numeral k) = (if b < 2 then 0 else 1 + width b (numeral k div b))"
  by (subst width.simps) simp

lemma width_small: "width b 0 = 0" "width b 1 = (if b < 2 then 0 else 1)"
  by (simp_all add: width.simps [of b 0] width.simps [of b 1] width.simps [of b "1 div b"])

lemma floor_rat_numeral: "\<lfloor>numeral a / numeral b :: rat\<rfloor> = numeral a div numeral b"
  using floor_divide_of_int_eq [of "numeral a" "numeral b", where ?'a = rat] by simp

lemma ceiling_rat_numeral: "\<lceil>numeral a / numeral b :: rat\<rceil> = - (- numeral a div numeral b)"
  using ceiling_divide_eq_div [of "numeral a" "numeral b", where ?'a = rat] by simp

lemmas digits_eval = digits_of_numeral digits_of_small digit_char_def padStart_def

lemmas double_eval = to_double_def ilog_def pow_int_def round_half_even_def Let_def
  width_numeral width_small floor_rat_numeral ceiling_rat_numeral

lemma status_500: "padStart 3 (digits_of 500) = ''500''"
  by (simp add: digits_eval)

lemma convert_invalid:
  "invalid_amount (amount req) \<Longrightarrow>
   post_api_convert e now c req =
     (\<lparr>status = 400, body = [(''error'', JStr ''Invalid amount''), (''code'', JStr ''INV-AMT'')]\<rparr>,
      c, [])"
  by (simp add: post_api_convert_def convert_try_def)

lemma convert_hit:
  assumes "\<not> invalid_amount (amount req)"
    and "c (cacheKey (from_currency req) (to_currency req)) = Some ent"
    and "\<not> expires ent < now"
    and "rate (stored ent) \<noteq> JBuiltin ''__proto__''"
  shows "post_api_convert e now c req =
     (\<lparr>status = 200,
       body = [(''rate'', rate (stored ent)),
               (''analysis'', JStr (analysis (stored ent))),
               (''timestamp'', JStr (timestamp (stored ent))),
               (''cached'', JBool True),
               (''amount'', JNum (parseFloat (amount req))),
               (''converted_amount'',
                JStr (toFixed (js_mul (to_number (amount req)) (to_number (rate (stored ent)))) 2))]\<rparr>,
      c,
      [CacheHas (cacheKey (from_currency req) (to_currency req)),
       CacheGet (cacheKey (from_currency req) (to_currency req))])"
  using assms
  by (simp add: post_api_convert_def convert_try_def cache_has_def cache_get_def cache_check_def
        cached_to_number_def Let_def)

lemma convert_hit_unreadable:
  assumes "\<not> invalid_amount (amount req)"
    and "c (cacheKey (from_currency req) (to_currency req)) = Some ent"
    and "\<not> expires ent < now"
    and "rate (stored ent) = JBuiltin ''__proto__''"
  shows "post_api_convert e now c req =
     (\<lparr>status = 500,
       body = [(''error'', JStr ''Conversion service unavailable''), (''code'', JStr ''SRV-500'')]\<rparr>,
      c,
      [CacheHas (cacheKey (from_currency req) (to_currency req)),
       CacheGet (cacheKey (from_currency req) (to_currency req))])"
  using assms
  by (simp add: post_api_convert_def convert_try_def cache_has_def cache_get_def cache_check_def
        cached_to_number_def Let_def status_of_def status_500)

lemma convert_miss_rejected:
  assumes "\<not> invalid_amount (amount req)"
    and "\<not> fst (cache_has now c (cacheKey (from_currency req) (to_currency req)))"
    and "fx e = FxError st"
  shows "post_api_convert e now c req =
     (\<lparr>status = status_of (HttpError st),
       body = [(''error'', JStr ''Conversion service unavailable''),
               (''code'', JStr (''SRV-'' @ padStart 3 (digits_of (int (status_of (HttpError st))))))]\<rparr>,
      c(cacheKey (from_currency req) (to_currency req) := None),
      [CacheHas (cacheKey (from_currency req) (to_currency req)),
       RateFetch (fx_url (from_currency req) (to_currency req))])"
  using assms cache_has_eq [of now c "cacheKey (from_currency req) (to_currency req)"]
  by (simp add: post_api_convert_def convert_try_def Let_def)

lemma convert_miss_no_rates:
  assumes "\<not> invalid_amount (amount req)"
    and "\<not> fst (cache_has now c (cacheKey (from_currency req) (to_currency req)))"
    and "fx e = FxOk None"
  shows "post_api_convert e now c req =
     (\<lparr>status = 500,
       body = [(''error'', JStr ''Conversion service unavailable''), (''code'', JStr ''SRV-500'')]\<rparr>,
      c(cacheKey (from_currency req) (to_currency req) := None),
      [CacheHas (cacheKey (from_currency req) (to_currency req)),
       RateFetch (fx_url (from_currency req) (to_currency req))])"
  using assms cache_has_eq [of now c "cacheKey (from_currency req) (to_currency req)"]
  by (simp add: post_api_convert_def convert_try_def Let_def status_of_def status_500)

lemma convert_miss_no_analysis:
  assumes "\<not> invalid_amount (amount req)"
    and "\<not> fst (cache_has now c (cacheKey (from_currency req) (to_currency req)))"
    and "fx e = FxOk (Some rs)"
    and "fst (getMarketAnalysis (ai e) (from_currency req) (to_currency req)
               (rates_get rs (to_currency req))) = Inl err"
  shows "post_api_convert e now c req =
     (\<lparr>status = status_of err,
       body = [(''error'', JStr ''Conversion service unavailable''),
               (''code'', JStr (''SRV-'' @ padStart 3 (digits_of (int (status_of err)))))]\<rparr>,
      c(cacheKey (from_currency req) (to_currency req) := None),
      [CacheHas (cacheKey (from_currency req) (to_currency req)),
       RateFetch (fx_url (from_currency req) (to_currency req)),
       CommentaryAttempt (prompt (from_currency req) (to_currency req)
                            (rates_get rs (to_currency req)))])"
  using assms cache_has_eq [of now c "cacheKey (from_currency req) (to_currency req)"]
    getMarketAnalysis_eq [of "ai e" "from_currency req" "to_currency req"
      "rates_get rs (to_currency req)"]
  by (simp add: post_api_convert_def convert_try_def Let_def)

lemma convert_miss_fresh:
  assumes "\<not> invalid_amount (amount req)"
    and "\<not> fst (cache_has now c (cacheKey (from_currency req) (to_currency req)))"
    and "fx e = FxOk (Some rs)"
    and "rates_get rs (to_currency req) = JNum n"
    and "fst (getMarketAnalysis (ai e) (from_currency req) (to_currency req) (JNum n)) = Inr words"
  shows "post_api_convert e now c req =
     (\<lparr>status = 200,
       body = [(''from_currency'', JStr (from_currency req)),
               (''to_currency'', JStr (to_currency req)),
               (''rate'', JNum (parse_float_string (toFixed n 4))),
               (''converted_amount'', JStr (toFixed (js_mul (to_number (amount req)) n) 2)),
               (''analysis'', JStr words),
               (''timestamp'', JStr (toISOString (now + fx_ms e + ai_ms e))),
               (''source'', JStr ''Frankfurter.app'')]\<rparr>,
      cache_set (now + fx_ms e + ai_ms e) c (cacheKey (from_currency req) (to_currency req))
        \<lparr>rate = JNum n, analysis = words, timestamp = toISOString (now + fx_ms e + ai_ms e)\<rparr>,
      [CacheHas (cacheKey (from_currency req) (to_currency req)),
       RateFetch (fx_url (from_currency req) (to_currency req)),
       CommentaryAttempt (prompt (from_currency req) (to_currency req) (JNum n)),
       CacheSet (cacheKey (from_currency req) (to_currency req))])"
  using assms cache_has_eq [of now c "cacheKey (from_currency req) (to_currency req)"]
    getMarketAnalysis_eq [of "ai e" "from_currency req" "to_currency req" "JNum n"]
  by (simp add: post_api_convert_def convert_try_def Let_def cache_set_def)

lemma convert_miss_not_a_number:
  assumes "\<not> invalid_amount (amount req)"
    and "\<not> fst (cache_has now c (cacheKey (from_currency req) (to_currency req)))"
    and "fx e = FxOk (Some rs)"
    and "rates_get rs (to_currency req) = r"
    and "\<forall>n. r \<noteq> JNum n"
    and "fst (getMarketAnalysis (ai e) (from_currency req) (to_currency req) r) = Inr words"
  shows "post_api_convert e now c req =
     (\<lparr>status = 500,
       body = [(''error'', JStr ''Conversion service unavailable''), (''code'', JStr ''SRV-500'')]\<rparr>,
      cache_set (now + fx_ms e + ai_ms e) c (cacheKey (from_currency req) (to_currency req))
        \<lparr>rate = r, analysis = words, timestamp = toISOString (now + fx_ms e + ai_ms e)\<rparr>,
      [CacheHas (cacheKey (from_currency req) (to_currency req)),
       RateFetch (fx_url (from_currency req) (to_currency req)),
       CommentaryAttempt (prompt (from_currency req) (to_currency req) r),
       CacheSet (cacheKey (from_currency req) (to_currency req))])"
  using assms cache_has_eq [of now c "cacheKey (from_currency req) (to_currency req)"]
    getMarketAnalysis_eq [of "ai e" "from_currency req" "to_currency req" r]
  by (cases r)
     (simp_all add: post_api_convert_def convert_try_def Let_def cache_set_def status_of_def status_500)

lemma find_digits_numeral:
  "find_digits (numeral w) k x n =
     (let u = pow_int 10 (n - k); lo = \<lfloor>x / u\<rfloor>; hi = lo + 1;
          ok_lo = (to_double (of_int lo * u) = Fin x);
          ok_hi = (hi < 10 ^ nat k \<and> to_double (of_int hi * u) = Fin x)
      in if ok_lo \<and> ok_hi then
           (let dl = x - of_int lo * u; dh = of_int hi * u - x
            in if dl < dh then (k, lo) else if dh < dl then (k, hi)
               else if even lo then (k, lo) else (k, hi))
         else if ok_lo then (k, lo)
         else if ok_hi then (k, hi)
         else find_digits (pred_numeral w) (k + 1) x n)"
  by (simp add: numeral_eq_Suc)

lemmas string_eval = pos_to_string_def shortest_digits_def find_digits_numeral double_eval digits_eval

lemmas fixed_eval = fixed_digits_def digits_eval floor_rat_numeral Let_def

lemmas parse_eval = parseFloat_def parse_float_string_def parse_decimal_def parse_unsigned_def
  parse_exponent_def is_space_def is_digit_def digits_val_def digit_val_def

lemmas amount_eval = invalid_amount_def isNaN_def

lemmas key_eval = cacheKey_def CACHE_PREFIX_def

text \<open>Every miss performs exactly one live fetch, whatever the provider answers.\<close>

lemma live_fetches_miss:
  assumes "\<not> invalid_amount (amount req)"
    and "\<not> fst (cache_has now c (cacheKey (from_currency req) (to_currency req)))"
  shows "live_fetches (snd (snd (post_api_convert e now c req))) = 1"
proof (cases "fx e")
  case (FxError st)
  then show ?thesis
    using convert_miss_rejected [where req = req and c = c and e = e and now = now, OF assms]
    by (simp add: live_fetches_def is_fetch_def)
next
  case (FxOk rso)
  show ?thesis
  proof (cases rso)
    case None
    then show ?thesis
      using FxOk convert_miss_no_rates [where req = req and c = c and e = e and now = now, OF assms]
      by (simp add: live_fetches_def is_fetch_def)
  next
    case (Some rs)
    let ?r = "rates_get rs (to_currency req)"
    show ?thesis
    proof (cases "fst (getMarketAnalysis (ai e) (from_currency req) (to_currency req) ?r)")
      case (Inl err)
      then show ?thesis
        using FxOk Some
          convert_miss_no_analysis [where req = req and c = c and e = e and now = now, OF assms]
        by (simp add: live_fetches_def is_fetch_def)
    next
      case (Inr words)
      show ?thesis
      proof (cases "\<exists>n. ?r = JNum n")
        case True
        then obtain n where "?r = JNum n" ..
        then show ?thesis
          using FxOk Some Inr
            convert_miss_fresh [where req = req and c = c and e = e and now = now, OF assms]
          by (simp add: live_fetches_def is_fetch_def)
      next
        case False
        then show ?thesis
          using FxOk Some Inr
            convert_miss_not_a_number [where req = req and c = c and e = e and now = now
              and r = "?r", OF assms]
          by (simp add: live_fetches_def is_fetch_def)
      qed
    qed
  qed
qed

text \<open>A conversion result comes from a live cache entry or from a fresh quote.\<close>

lemma conversion_cases:
  assumes "is_conversion (fst (post_api_convert e now c req))"
  obtains (Hit) ent where "\<not> invalid_amount (amount req)"
      and "c (cacheKey (from_currency req) (to_currency req)) = Some ent"
      and "\<not> expires ent < now"
      and "rate (stored ent) \<noteq> JBuiltin ''__proto__''"
  | (Fresh) rs n words where "\<not> invalid_amount (amount req)"
      and "\<not> fst (cache_has now c (cacheKey (from_currency req) (to_currency req)))"
      and "fx e = FxOk (Some rs)"
      and "rates_get rs (to_currency req) = JNum n"
      and "fst (getMarketAnalysis (ai e) (from_currency req) (to_currency req) (JNum n)) = Inr words"
proof -
  let ?k = "cacheKey (from_currency req) (to_currency req)"
  have valid: "\<not> invalid_amount (amount req)"
    using assms convert_invalid [of req e now c] by (auto simp: is_conversion_def)
  show thesis
  proof (cases "fst (cache_has now c ?k)")
    case True
    then obtain ent where ent: "c ?k = Some ent" "\<not> expires ent < now"
      by (auto simp: cache_has_hit)
    have "rate (stored ent) \<noteq> JBuiltin ''__proto__''"
    proof
      assume "rate (stored ent) = JBuiltin ''__proto__''"
      with assms ent
        convert_hit_unreadable [where req = req and c = c and ent = ent and now = now and e = e,
          OF valid]
      show False
        by (simp add: is_conversion_def)
    qed
    with valid ent show thesis by (rule Hit)
  next
    case miss: False
    show thesis
    proof (cases "fx e")
      case (FxError st)
      then show thesis
        using assms convert_miss_rejected [where req = req and c = c and e = e and now = now, OF valid miss]
        by (simp add: is_conversion_def)
    next
      case (FxOk rso)
      show thesis
      proof (cases rso)
        case None
        then show thesis
          using assms FxOk
            convert_miss_no_rates [where req = req and c = c and e = e and now = now, OF valid miss]
          by (simp add: is_conversion_def)
      next
        case (Some rs)
        let ?r = "rates_get rs (to_currency req)"
        show thesis
        proof (cases "fst (getMarketAnalysis (ai e) (from_currency req) (to_currency req) ?r)")
          case (Inl err)
          then show thesis
            using assms FxOk Some
              convert_miss_no_analysis [where req = req and c = c and e = e and now = now,
                OF valid miss]
            by (simp add: is_conversion_def)
        next
          case (Inr words)
          show thesis
          proof (cases "\<exists>n. ?r = JNum n")
            case True
            then obtain n where "?r = JNum n" ..
            with valid miss FxOk Some Inr show thesis by (auto intro: Fresh)
          next
            case False
            then show thesis
              using assms FxOk Some Inr
                convert_miss_not_a_number [where req = req and c = c and e = e and now = now
                  and r = "?r", OF valid miss]
              by (simp add: is_conversion_def)
          qed
        qed
      qed
    qed
  qed
qed

text \<open>The handler touches no cache entry but the one under its own key.\<close>

lemma convert_other_keys:
  assumes "k \<noteq> cacheKey (from_currency req) (to_currency req)"
  shows "fst (snd (post_api_convert e now c req)) k = c k"
proof (cases "invalid_amount (amount req)")
  case True
  then show ?thesis by (simp add: convert_invalid)
next
  case valid: False
  let ?k = "cacheKey (from_currency req) (to_currency req)"
  show ?thesis
  proof (cases "fst (cache_has now c ?k)")
    case True
    then obtain ent where ent: "c ?k = Some ent" "\<not> expires ent < now"
      by (auto simp: cache_has_hit)
    show ?thesis
      using ent
        convert_hit [where req = req and c = c and ent = ent and now = now and e = e, OF valid]
        convert_hit_unreadable [where req = req and c = c and ent = ent and now = now and e = e,
          OF valid]
      by (cases "rate (stored ent) = JBuiltin ''__proto__''") simp_all
  next
    case miss: False
    show ?thesis
    proof (cases "fx e")
      case (FxError st)
      then show ?thesis
        using assms convert_miss_rejected [where req = req and c = c and e = e and now = now, OF valid miss]
        by simp
    next
      case (FxOk rso)
      show ?thesis
      proof (cases rso)
        case None
        then show ?thesis
          using assms FxOk
            convert_miss_no_rates [where req = req and c = c and e = e and now = now, OF valid miss]
          by simp
      next
        case (Some rs)
        let ?r = "rates_get rs (to_currency req)"
        show ?thesis
        proof (cases "fst (getMarketAnalysis (ai e) (from_currency req) (to_currency req) ?r)")
          case (Inl err)
          then show ?thesis
            using assms FxOk Some
              convert_miss_no_analysis [where req = req and c = c and e = e and now = now,
                OF valid miss]
            by simp
        next
          case (Inr words)
          show ?thesis
          proof (cases "\<exists>n. ?r = JNum n")
            case True
            then obtain n where "?r = JNum n" ..
            then show ?thesis
              using assms FxOk Some Inr
                convert_miss_fresh [where req = req and c = c and e = e and now = now, OF valid miss]
              by (simp add: cache_set_def)
          next
            case False
            then show ?thesis
              using assms FxOk Some Inr
                convert_miss_not_a_number [where req = req and c = c and e = e and now = now
                  and r = "?r", OF valid miss]
              by (simp add: cache_set_def)
          qed
        qed
      qed
    qed
  qed
qed

section \<open>Known answers\<close>

text \<open>
  The embedded built-ins on values whose results in JavaScript are well known: \<open>0.1\<close> and
  \<open>0.92\<close> are not doubles and are rounded on reading; \<open>0.92\<close> prints as itself;
  \<^verbatim>\<open>(1.005).toFixed(2)\<close> is \<^verbatim>\<open>"1.00"\<close>, because the double below \<open>1.005\<close> is rounded, not the
  decimal.
\<close>

lemma double_one_tenth: "to_double (1 / 10) = Fin (3602879701896397 / 36028797018963968)"
  by (simp add: double_eval)

lemma double_0_92: "to_double (23 / 25) = Fin (8286623314361713 / 9007199254740992)"
  by (simp add: double_eval)

lemma string_0_92: "number_to_string (Fin (8286623314361713 / 9007199254740992)) = ''0.92''"
  by (simp add: string_eval)

lemma product_100_0_92:
  "toFixed (js_mul (Fin 100) (Fin (8286623314361713 / 9007199254740992))) 2 = ''92.00''"
  by (simp add: double_eval fixed_eval)

lemma fixed_0_92: "toFixed (Fin (8286623314361713 / 9007199254740992)) 4 = ''0.9200''"
  by (simp add: fixed_eval)

lemma parse_0_9200: "parse_float_string ''0.9200'' = Fin (8286623314361713 / 9007199254740992)"
  by (simp add: parse_eval double_eval)

lemma double_1_005: "to_double (1005 / 1000) = Fin (4526117625507348 / 4503599627370496)"
  by (simp add: double_eval)

lemma fixed_1_005: "toFixed (Fin (4526117625507348 / 4503599627370496)) 2 = ''1.00''"
  by (simp add: fixed_eval)

lemma iso_string: "toISOString 1700000000420 = ''2023-11-14T22:13:20.420Z''"
  unfolding toISOString_def Let_def by (simp add: digits_eval numeral_2_eq_2 numeral_3_eq_3)

text \<open>
  The example of the specification: 100 USD at a live rate of 0.92, on an empty cache,
  and the same request again ten seconds later.
\<close>

lemma example_fresh:
  "fst (post_api_convert
          \<lparr>fx = FxOk (Some [''EUR'' \<mapsto> JNum (to_double (23 / 25))]), fx_ms = 120,
            ai = AiText ''ok'', ai_ms = 300\<rparr>
          1700000000000 Map.empty
          \<lparr>amount = JNum (Fin 100), from_currency = ''USD'', to_currency = ''EUR''\<rparr>) =
     \<lparr>status = 200,
      body = [(''from_currency'', JStr ''USD''),
              (''to_currency'', JStr ''EUR''),
              (''rate'', JNum (to_double (23 / 25))),
              (''converted_amount'', JStr ''92.00''),
              (''analysis'', JStr ''ok''),
              (''timestamp'', JStr ''2023-11-14T22:13:20.420Z''),
              (''source'', JStr ''Frankfurter.app'')]\<rparr>"
proof -
  let ?x = "Fin (8286623314361713 / 9007199254740992)"
  let ?e = "\<lparr>fx = FxOk (Some [''EUR'' \<mapsto> JNum ?x]), fx_ms = 120, ai = AiText ''ok'', ai_ms = 300\<rparr>"
  let ?r = "\<lparr>amount = JNum (Fin 100), from_currency = ''USD'', to_currency = ''EUR''\<rparr>"
  have res: "post_api_convert ?e 1700000000000 Map.empty ?r =
     (\<lparr>status = 200,
       body = [(''from_currency'', JStr (from_currency ?r)),
               (''to_currency'', JStr (to_currency ?r)),
               (''rate'', JNum (parse_float_string (toFixed ?x 4))),
               (''converted_amount'', JStr (toFixed (js_mul (to_number (amount ?r)) ?x) 2)),
               (''analysis'', JStr ''ok''),
               (''timestamp'', JStr (toISOString (1700000000000 + fx_ms ?e + ai_ms ?e))),
               (''source'', JStr ''Frankfurter.app'')]\<rparr>,
      cache_set (1700000000000 + fx_ms ?e + ai_ms ?e) Map.empty
        (cacheKey (from_currency ?r) (to_currency ?r))
        \<lparr>rate = JNum ?x, analysis = ''ok'',
          timestamp = toISOString (1700000000000 + fx_ms ?e + ai_ms ?e)\<rparr>,
      [CacheHas (cacheKey (from_currency ?r) (to_currency ?r)),
       RateFetch (fx_url (from_currency ?r) (to_currency ?r)),
       CommentaryAttempt (prompt (from_currency ?r) (to_currency ?r) (JNum ?x)),
       CacheSet (cacheKey (from_currency ?r) (to_currency ?r))])"
    by (rule convert_miss_fresh [where rs = "[''EUR'' \<mapsto> JNum ?x]"])
       (simp_all add: amount_eval cache_has_hit rates_get_def getMarketAnalysis_def)
  have shown: "parse_float_string (toFixed ?x 4) = ?x"
    by (simp only: fixed_0_92 parse_0_9200)
  have amt: "toFixed (js_mul (to_number (amount ?r)) ?x) 2 = ''92.00''"
    using product_100_0_92 by simp
  show ?thesis
    by (simp only: res double_0_92 shown amt fst_conv) (simp add: iso_string)
qed

section \<open>Numbers printed with a fixed number of decimals\<close>

lemma digits_of_nonempty: "digits_of n \<noteq> []"
  by (subst digits_of.simps) simp

text \<open>
  For a non-negative \<open>n\<close>, \<^verbatim>\<open>toFixed(2)\<close> prints \<open>n / 100\<close> as its integer part, a point and
  exactly two digits.
\<close>

lemma div_10_twice: "(n::int) div 10 div 10 = n div 100"
  using zdiv_zmult2_eq [of 10 n 10] by simp

lemma mod_100_split: "(n::int) mod 100 = 10 * (n div 10 mod 10) + n mod 10"
  using zmod_zmult2_eq [of 10 n 10] by simp

lemma tens_digit: "(n::int) div 10 mod 10 = n mod 100 div 10"
proof -
  have "(10 * (n div 10 mod 10) + n mod 10) div 10 = n div 10 mod 10"
    by simp
  then show ?thesis by (simp add: mod_100_split)
qed

lemma fixed_digits_two:
  assumes "0 \<le> n"
  shows "fixed_digits 2 n =
         digits_of (n div 100) @ ''.'' @ [digit_char (n mod 100 div 10), digit_char (n mod 10)]"
proof -
  consider "n < 10" | "10 \<le> n" "n < 100" | "100 \<le> n" by linarith
  then show ?thesis
  proof cases
    case 1
    then have "digits_of n = [digit_char n]" "n div 100 = 0" "n mod 100 div 10 = 0" "n mod 10 = n"
      using assms by (simp_all add: digits_of.simps [of n])
    then show ?thesis
      by (simp add: fixed_digits_def digits_of.simps [of 0] digit_char_def)
  next
    case 2
    then have a: "n div 10 < 10" "n div 100 = 0" "n mod 100 div 10 = n div 10"
      by simp_all
    have "digits_of n = [digit_char (n div 10), digit_char (n mod 10)]"
      using 2 a by (simp add: digits_of.simps [of n] digits_of.simps [of "n div 10"])
    then show ?thesis
      using 2 a by (simp add: fixed_digits_def digits_of.simps [of 0] digit_char_def)
  next
    case 3
    then have a: "\<not> n < 10" "\<not> n div 10 < 10" "n \<noteq> 0"
      by simp_all
    have b: "n div 10 div 10 = n div 100" "n div 10 mod 10 = n mod 100 div 10"
      by (rule div_10_twice, rule tens_digit)
    have "digits_of n =
          digits_of (n div 100) @ [digit_char (n mod 100 div 10), digit_char (n mod 10)]"
      using a b by (simp add: digits_of.simps [of n] digits_of.simps [of "n div 10"])
    then show ?thesis
      using a digits_of_nonempty [of "n div 100"]
      by (simp add: fixed_digits_def Let_def)
  qed
qed

lemma toFixed_two:
  assumes "\<bar>p\<bar> < 10 ^ 21"
  shows "toFixed (Fin p) 2 =
         (if p < 0 then ''-'' else '''')
         @ digits_of (\<lfloor>\<bar>p\<bar> * 100 + 1 / 2\<rfloor> div 100) @ ''.''
         @ [digit_char (\<lfloor>\<bar>p\<bar> * 100 + 1 / 2\<rfloor> mod 100 div 10),
            digit_char (\<lfloor>\<bar>p\<bar> * 100 + 1 / 2\<rfloor> mod 10)]"
proof -
  have "0 \<le> \<lfloor>\<bar>p\<bar> * 100 + 1 / 2\<rfloor>"
    by simp
  then show ?thesis
    using assms by (simp add: fixed_digits_two Let_def)
qed

subsection \<open>Reading back what \<^verbatim>\<open>toFixed\<close> printed\<close>

lemma digit_char_is_digit:
  assumes "0 \<le> d" and "d < 10"
  shows "is_digit (digit_char d)"
proof -
  have "nat d < length ''0123456789''"
    using assms by simp
  then have "''0123456789'' ! nat d \<in> set ''0123456789''"
    by (rule nth_mem)
  then show ?thesis
    by (simp only: is_digit_def digit_char_def)
qed

lemma digit_val_digit_char:
  assumes "0 \<le> d" and "d < 10"
  shows "digit_val (digit_char d) = d"
proof -
  have "d = 0 \<or> d = 1 \<or> d = 2 \<or> d = 3 \<or> d = 4 \<or> d = 5 \<or> d = 6 \<or> d = 7 \<or> d = 8 \<or> d = 9"
    using assms by arith
  then show ?thesis
    by (elim disjE) (simp_all add: digit_val_def is_digit_def digit_char_def)
qed

lemma digits_of_all_digits:
  "0 \<le> n \<Longrightarrow> c \<in> set (digits_of n) \<Longrightarrow> is_digit c"
proof (induction n arbitrary: c rule: digits_of.induct)
  case (1 n)
  show ?case
  proof (cases "n < 10")
    case True
    then show ?thesis
      using "1.prems" digit_char_is_digit [of n] by (simp add: digits_of.simps [of n])
  next
    case False
    then have "c \<in> set (digits_of (n div 10)) \<or> c = digit_char (n mod 10)"
      using "1.prems" by (auto simp: digits_of.simps [of n])
    then show ?thesis
    proof
      assume "c \<in> set (digits_of (n div 10))"
      then show ?thesis
        using "1.IH" [OF False] "1.prems"(1) by simp
    next
      assume "c = digit_char (n mod 10)"
      then show ?thesis
        using digit_char_is_digit [of "n mod 10"] by simp
    qed
  qed
qed

lemma digits_val_snoc: "digits_val b (xs @ [c]) = b * digits_val b xs + digit_val c"
  by (simp add: digits_val_def)

lemma digits_val_digits_of: "0 \<le> n \<Longrightarrow> digits_val 10 (digits_of n) = n"
proof (induction n rule: digits_of.induct)
  case (1 n)
  show ?case
  proof (cases "n < 10")
    case True
    then show ?thesis
      using "1.prems" digit_val_digit_char [of n]
      by (simp add: digits_of.simps [of n] digits_val_def)
  next
    case False
    have "digits_val 10 (digits_of n) = 10 * digits_val 10 (digits_of (n div 10)) + digit_val (digit_char (n mod 10))"
      using False by (simp add: digits_of.simps [of n] digits_val_snoc)
    also have "\<dots> = 10 * (n div 10) + n mod 10"
      using "1.IH" [OF False] "1.prems" digit_val_digit_char [of "n mod 10"] by simp
    also have "\<dots> = n"
      by simp
    finally show ?thesis .
  qed
qed

lemma digits_val_zeros: "digits_val 10 (replicate k (CHR ''0'') @ xs) = digits_val 10 xs"
proof (induction k)
  case 0
  then show ?case by simp
next
  case (Suc k)
  have "digit_val (CHR ''0'') = 0"
    by (simp add: digit_val_def is_digit_def)
  then show ?case
    using Suc by (simp add: digits_val_def)
qed

text \<open>
  What \<^verbatim>\<open>toFixed(f)\<close> prints for a non-negative \<open>n\<close> is an integer part, a point and \<open>f\<close>
  digits, and the digits read as \<open>n\<close>.
\<close>

lemma fixed_digits_shape:
  assumes "0 \<le> n" and "0 < f"
  shows "\<exists>ip fp. fixed_digits f n = ip @ ''.'' @ fp \<and> ip \<noteq> [] \<and> length fp = f
           \<and> (\<forall>c \<in> set ip. is_digit c) \<and> (\<forall>c \<in> set fp. is_digit c)
           \<and> digits_val 10 (ip @ fp) = n"
proof -
  define m where "m = digits_of n"
  define m1 where "m1 = (if length m \<le> f then replicate (f + 1 - length m) (CHR ''0'') @ m else m)"
  have m0: "(if n = 0 then ''0'' else digits_of n) = m"
    by (simp add: m_def digits_of.simps [of 0] digit_char_def)
  have fd: "fixed_digits f n = take (length m1 - f) m1 @ ''.'' @ drop (length m1 - f) m1"
    using assms(2) by (simp add: fixed_digits_def m0 m1_def Let_def)
  have mne: "m \<noteq> []"
    by (simp add: m_def digits_of.simps [of n])
  have len: "f < length m1"
    using mne by (auto simp: m1_def)
  have dig: "\<forall>c \<in> set m1. is_digit c"
    using digits_of_all_digits [OF assms(1)] by (auto simp: m1_def m_def is_digit_def)
  have val: "digits_val 10 m1 = n"
    using digits_val_digits_of [OF assms(1)] by (simp add: m1_def m_def digits_val_zeros)
  let ?ip = "take (length m1 - f) m1" and ?fp = "drop (length m1 - f) m1"
  have "fixed_digits f n = ?ip @ ''.'' @ ?fp" by (rule fd)
  moreover have "?ip \<noteq> []" using len by auto
  moreover have "length ?fp = f" using len by simp
  moreover have "\<forall>c \<in> set ?ip. is_digit c" using dig by (meson in_set_takeD)
  moreover have "\<forall>c \<in> set ?fp. is_digit c" using dig by (meson in_set_dropD)
  moreover have "digits_val 10 (?ip @ ?fp) = n" using val by simp
  ultimately show ?thesis by blast
qed

lemma parse_unsigned_fixed:
  assumes "ip \<noteq> []" and "\<forall>c \<in> set ip. is_digit c" and "\<forall>c \<in> set fp. is_digit c"
  shows "parse_unsigned (ip @ ''.'' @ fp) =
         Some (to_double (of_int (digits_val 10 (ip @ fp)) * pow_int 10 (- int (length fp))), [])"
proof -
  have nd: "\<not> is_digit (CHR ''.'')"
    by (simp add: is_digit_def)
  obtain c cs where ip: "ip = c # cs"
    using assms(1) by (cases ip) auto
  have "is_digit c"
    using assms(2) ip by simp
  then have "c \<noteq> CHR ''I''"
    by (auto simp: is_digit_def)
  then have ninf: "take 8 (ip @ CHR ''.'' # fp) \<noteq> ''Infinity''"
    by (simp add: ip)
  have cs: "ip @ ''.'' @ fp = ip @ CHR ''.'' # fp"
    by simp
  have tw: "takeWhile is_digit (ip @ CHR ''.'' # fp) = ip"
    using assms(2) nd by (simp add: takeWhile_tail)
  have dw: "dropWhile is_digit (ip @ CHR ''.'' # fp) = CHR ''.'' # fp"
    using assms(2) nd by (simp add: dropWhile_append3)
  have tf: "takeWhile is_digit fp = fp" and df: "dropWhile is_digit fp = []"
    using assms(3) by simp_all
  show ?thesis
    unfolding parse_unsigned_def cs
    apply (simp only: ninf if_False Let_def tw dw)
    apply (simp add: tf df parse_exponent_def assms(1))
    done
qed

lemma parse_float_fixed:
  assumes "0 \<le> n" and "0 < f"
  shows "parse_float_string (fixed_digits f n) = to_double (of_int n / 10 ^ f)"
    and "parse_float_string (''-'' @ fixed_digits f n) = js_neg (to_double (of_int n / 10 ^ f))"
proof -
  obtain ip fp where shape: "fixed_digits f n = ip @ ''.'' @ fp" "ip \<noteq> []" "length fp = f"
      "\<forall>c \<in> set ip. is_digit c" "\<forall>c \<in> set fp. is_digit c" "digits_val 10 (ip @ fp) = n"
    using fixed_digits_shape [OF assms] by blast
  obtain c cs where ip: "ip = c # cs"
    using shape(2) by (cases ip) auto
  have "is_digit c"
    using shape(4) ip by simp
  then have c: "\<not> is_space c" "c \<noteq> CHR ''+''" "c \<noteq> CHR ''-''"
    by (auto simp: is_digit_def is_space_def)
  have scale: "pow_int 10 (- int f) = 1 / 10 ^ f"
    using assms(2) by (simp add: pow_int_def)
  have pu: "parse_unsigned (fixed_digits f n) = Some (to_double (of_int n / 10 ^ f), [])"
    using parse_unsigned_fixed [OF shape(2,4,5)] shape(1,3,6) scale by simp
  have pd: "parse_decimal (fixed_digits f n) = Some (to_double (of_int n / 10 ^ f), [])"
    using pu c by (simp add: parse_decimal_def shape(1) ip)
  have sp: "dropWhile is_space (fixed_digits f n) = fixed_digits f n"
    using c by (simp add: shape(1) ip)
  show "parse_float_string (fixed_digits f n) = to_double (of_int n / 10 ^ f)"
    by (simp add: parse_float_string_def sp pd)
  have minus: "\<not> is_space (CHR ''-'')"
    by (simp add: is_space_def)
  show "parse_float_string (''-'' @ fixed_digits f n) = js_neg (to_double (of_int n / 10 ^ f))"
    using minus by (simp add: parse_float_string_def parse_decimal_def pu)
qed

text \<open>
  \<^verbatim>\<open>parseFloat(rate.toFixed(4))\<close> is the double nearest to the rate rounded half up (in
  magnitude) to four decimal digits.
\<close>

lemma rate_display:
  assumes "\<bar>r\<bar> < 10 ^ 21"
  shows "parse_float_string (toFixed (Fin r) 4) =
         (if r < 0 then js_neg (to_double (of_int \<lfloor>\<bar>r\<bar> * 10 ^ 4 + 1 / 2\<rfloor> / 10 ^ 4))
          else to_double (of_int \<lfloor>\<bar>r\<bar> * 10 ^ 4 + 1 / 2\<rfloor> / 10 ^ 4))"
proof -
  have n: "0 \<le> \<lfloor>\<bar>r\<bar> * 10 ^ 4 + 1 / 2\<rfloor>"
    by simp
  have f: "0 < (4::nat)"
    by simp
  show ?thesis
  proof (cases "r < 0")
    case True
    then have a: "\<bar>r\<bar> = - r" by simp
    show ?thesis
      using assms True parse_float_fixed(2) [OF n f] by (simp add: Let_def a)
  next
    case False
    then have a: "\<bar>r\<bar> = r" by simp
    show ?thesis
      using assms False parse_float_fixed(1) [OF n f] by (simp add: Let_def a)
  qed
qed

section \<open>Expiry of cache entries\<close>

text \<open>
  C3, as the code has it. An entry that \<open>cache_set\<close> stored at the instant \<open>tins\<close> counts
  as absent for every request that starts more than 600 seconds later: the handler
  answers, and leaves the cache and its trace, exactly as if the key had never been
  stored. Such a request, when its amount passes validation, makes exactly one live
  fetch; and when the fetch yields the provider's rates and a commentary is obtained,
  the quote just fetched replaces the old entry, with a new lifetime of 600 seconds.
\<close>

theorem expired_entry_is_fresh_miss:
  assumes "\<not> invalid_amount (amount req)"
    and "c (cacheKey (from_currency req) (to_currency req)) =
         (cache_set tins cold (cacheKey (from_currency req) (to_currency req)) q)
           (cacheKey (from_currency req) (to_currency req))"
    and "tins + 600 * 1000 < now"
  shows "post_api_convert e now c req =
           post_api_convert e now (c(cacheKey (from_currency req) (to_currency req) := None)) req
       \<and> live_fetches (snd (snd (post_api_convert e now c req))) = 1
       \<and> (fx e = FxOk (Some rs)
            \<and> fst (getMarketAnalysis (ai e) (from_currency req) (to_currency req)
                      (rates_get rs (to_currency req))) = Inr words
          \<longrightarrow> fst (snd (post_api_convert e now c req)) (cacheKey (from_currency req) (to_currency req)) =
                Some \<lparr>stored = \<lparr>rate = rates_get rs (to_currency req), analysis = words,
                                  timestamp = toISOString (now + fx_ms e + ai_ms e)\<rparr>,
                      expires = now + fx_ms e + ai_ms e + 600 * 1000\<rparr>)"
proof -
  let ?k = "cacheKey (from_currency req) (to_currency req)"
  let ?old = "\<lparr>stored = q, expires = tins + stdTTL * 1000\<rparr>"
  have old: "c ?k = Some ?old"
    using assms(2) by (simp add: cache_set_def)
  have gone: "expires ?old < now"
    using assms(3) by (simp add: stdTTL_def)
  have miss: "\<not> fst (cache_has now c ?k)"
    using old gone by (simp add: cache_has_hit)
  have absent: "post_api_convert e now c req = post_api_convert e now (c(?k := None)) req"
    using assms(1) old gone
    by (simp add: post_api_convert_def convert_try_def cache_has_def cache_check_def Let_def)
  have one: "live_fetches (snd (snd (post_api_convert e now c req))) = 1"
    using assms(1) miss by (rule live_fetches_miss)
  have over: "fst (snd (post_api_convert e now c req)) ?k =
                Some \<lparr>stored = \<lparr>rate = rates_get rs (to_currency req), analysis = words,
                                  timestamp = toISOString (now + fx_ms e + ai_ms e)\<rparr>,
                      expires = now + fx_ms e + ai_ms e + 600 * 1000\<rparr>"
    if ok: "fx e = FxOk (Some rs)"
      and an: "fst (getMarketAnalysis (ai e) (from_currency req) (to_currency req)
                      (rates_get rs (to_currency req))) = Inr words"
  proof (cases "\<exists>n. rates_get rs (to_currency req) = JNum n")
    case True
    then obtain n where "rates_get rs (to_currency req) = JNum n" ..
    then show ?thesis
      using an convert_miss_fresh [where req = req and c = c and e = e and now = now,
          OF assms(1) miss ok]
      by (simp add: cache_set_def stdTTL_def)
  next
    case False
    then show ?thesis
      using an convert_miss_not_a_number [where req = req and c = c and e = e and now = now
          and r = "rates_get rs (to_currency req)", OF assms(1) miss ok]
      by (simp add: cache_set_def stdTTL_def)
  qed
  show ?thesis using absent one over by blast
qed

theorem expired_entry_is_fresh_miss_witness:
  "live_fetches (snd (snd (post_api_convert
        \<lparr>fx = FxOk (Some [''EUR'' \<mapsto> JNum (Fin 2)]), fx_ms = 120, ai = AiText ''ok'', ai_ms = 300\<rparr>
        700000
        (cache_set 1000 Map.empty ''FX_RATE_USD_EUR''
           \<lparr>rate = JNum (Fin 3), analysis = ''old'', timestamp = toISOString 1000\<rparr>)
        \<lparr>amount = JNum (Fin 100), from_currency = ''USD'', to_currency = ''EUR''\<rparr>))) = 1
   \<and> fst (snd (post_api_convert
        \<lparr>fx = FxOk (Some [''EUR'' \<mapsto> JNum (Fin 2)]), fx_ms = 120, ai = AiText ''ok'', ai_ms = 300\<rparr>
        700000
        (cache_set 1000 Map.empty ''FX_RATE_USD_EUR''
           \<lparr>rate = JNum (Fin 3), analysis = ''old'', timestamp = toISOString 1000\<rparr>)
        \<lparr>amount = JNum (Fin 100), from_currency = ''USD'', to_currency = ''EUR''\<rparr>)) ''FX_RATE_USD_EUR''
     = Some \<lparr>stored = \<lparr>rate = JNum (Fin 2), analysis = ''ok'', timestamp = toISOString 700420\<rparr>,
             expires = 1300420\<rparr>"
proof -
  let ?req = "\<lparr>amount = JNum (Fin 100), from_currency = ''USD'', to_currency = ''EUR''\<rparr>"
  let ?q = "\<lparr>rate = JNum (Fin 3), analysis = ''old'', timestamp = toISOString 1000\<rparr>"
  let ?c = "cache_set 1000 Map.empty ''FX_RATE_USD_EUR'' ?q"
  let ?e = "\<lparr>fx = FxOk (Some [''EUR'' \<mapsto> JNum (Fin 2)]), fx_ms = 120, ai = AiText ''ok'', ai_ms = 300\<rparr>"
  have k: "cacheKey (from_currency ?req) (to_currency ?req) = ''FX_RATE_USD_EUR''"
    by (simp add: key_eval)
  have h1: "\<not> invalid_amount (amount ?req)"
    by (simp add: amount_eval)
  have h2: "?c (cacheKey (from_currency ?req) (to_currency ?req)) =
            (cache_set 1000 Map.empty (cacheKey (from_currency ?req) (to_currency ?req)) ?q)
              (cacheKey (from_currency ?req) (to_currency ?req))"
    by (simp only: k)
  have h3: "(1000::nat) + 600 * 1000 < 700000"
    by simp
  have h4: "fx ?e = FxOk (Some [''EUR'' \<mapsto> JNum (Fin 2)])
            \<and> fst (getMarketAnalysis (ai ?e) (from_currency ?req) (to_currency ?req)
                       (rates_get [''EUR'' \<mapsto> JNum (Fin 2)] (to_currency ?req))) = Inr ''ok''"
    by (simp add: getMarketAnalysis_def)
  have r: "rates_get [''EUR'' \<mapsto> JNum (Fin 2)] (to_currency ?req) = JNum (Fin 2)"
    by (simp add: rates_get_def)
  show ?thesis
    using expired_entry_is_fresh_miss [where req = ?req and c = ?c and tins = 1000
          and cold = Map.empty and q = ?q and now = 700000 and e = ?e
          and rs = "[''EUR'' \<mapsto> JNum (Fin 2)]" and words = "''ok''", OF h1 h2 h3, THEN conjunct2] h4
    by (simp only: k r) simp
qed

text \<open>
  C3 as stated fails: not every request for a key whose entry has expired fetches, and
  not every fetch ends with a new entry. With the entry for \<open>(USD, EUR)\<close> expired, a
  request that the rate provider rejects with status 503 makes its one live fetch and
  stores nothing: the old entry is gone and none has taken its place. With the entry
  for \<open>(constructor, EUR)\<close> expired, the provider answering with a rate and the
  generative-text service failing, the fetch succeeds and still nothing is stored,
  because the inbuilt analysis throws. And a request whose amount is 0 is turned away
  before the cache is read: no fetch at all, the expired entry is still in the table.
\<close>

theorem expired_entry_counterexample:
  "post_api_convert \<lparr>fx = FxError (Some 503), fx_ms = 120, ai = AiText ''ok'', ai_ms = 300\<rparr>
      700000
      (cache_set 1000 Map.empty ''FX_RATE_USD_EUR''
         \<lparr>rate = JNum (Fin 3), analysis = ''old'', timestamp = toISOString 1000\<rparr>)
      \<lparr>amount = JNum (Fin 100), from_currency = ''USD'', to_currency = ''EUR''\<rparr> =
     (\<lparr>status = 503,
       body = [(''error'', JStr ''Conversion service unavailable''), (''code'', JStr ''SRV-503'')]\<rparr>,
      Map.empty,
      [CacheHas ''FX_RATE_USD_EUR'',
       RateFetch ''https://api.frankfurter.app/latest?from=USD&to=EUR''])
   \<and> post_api_convert
      \<lparr>fx = FxOk (Some [''EUR'' \<mapsto> JNum (Fin 1)]), fx_ms = 120, ai = AiError, ai_ms = 300\<rparr>
      700000
      (cache_set 1000 Map.empty ''FX_RATE_constructor_EUR''
         \<lparr>rate = JNum (Fin 3), analysis = ''old'', timestamp = toISOString 1000\<rparr>)
      \<lparr>amount = JNum (Fin 100), from_currency = ''constructor'', to_currency = ''EUR''\<rparr> =
     (\<lparr>status = 500,
       body = [(''error'', JStr ''Conversion service unavailable''), (''code'', JStr ''SRV-500'')]\<rparr>,
      Map.empty,
      [CacheHas ''FX_RATE_constructor_EUR'',
       RateFetch ''https://api.frankfurter.app/latest?from=constructor&to=EUR'',
       CommentaryAttempt (prompt ''constructor'' ''EUR'' (JNum (Fin 1)))])
   \<and> post_api_convert
      \<lparr>fx = FxOk (Some [''EUR'' \<mapsto> JNum (Fin 1)]), fx_ms = 120, ai = AiText ''ok'', ai_ms = 300\<rparr>
      700000
      (cache_set 1000 Map.empty ''FX_RATE_USD_EUR''
         \<lparr>rate = JNum (Fin 3), analysis = ''old'', timestamp = toISOString 1000\<rparr>)
      \<lparr>amount = JNum (Fin 0), from_currency = ''USD'', to_currency = ''EUR''\<rparr> =
     (\<lparr>status = 400, body = [(''error'', JStr ''Invalid amount''), (''code'', JStr ''INV-AMT'')]\<rparr>,
      cache_set 1000 Map.empty ''FX_RATE_USD_EUR''
         \<lparr>rate = JNum (Fin 3), analysis = ''old'', timestamp = toISOString 1000\<rparr>,
      [])"
proof (intro conjI)
  let ?q = "\<lparr>rate = JNum (Fin 3), analysis = ''old'', timestamp = toISOString 1000\<rparr>"
  let ?r = "\<lparr>amount = JNum (Fin 100), from_currency = ''USD'', to_currency = ''EUR''\<rparr>"
  let ?e = "\<lparr>fx = FxError (Some 503), fx_ms = 120, ai = AiText ''ok'', ai_ms = 300\<rparr>"
  let ?c = "cache_set 1000 Map.empty ''FX_RATE_USD_EUR'' ?q"
  have code: "padStart 3 (digits_of 503) = ''503''"
    by (simp add: digits_eval)
  have "post_api_convert ?e 700000 ?c ?r =
     (\<lparr>status = status_of (HttpError (Some 503)),
       body = [(''error'', JStr ''Conversion service unavailable''),
               (''code'', JStr (''SRV-'' @ padStart 3 (digits_of (int (status_of (HttpError (Some 503)))))))]\<rparr>,
      ?c(cacheKey (from_currency ?r) (to_currency ?r) := None),
      [CacheHas (cacheKey (from_currency ?r) (to_currency ?r)),
       RateFetch (fx_url (from_currency ?r) (to_currency ?r))])"
    by (rule convert_miss_rejected)
       (simp_all add: amount_eval cache_has_hit key_eval cache_set_def stdTTL_def)
  then show "post_api_convert ?e 700000 ?c ?r =
     (\<lparr>status = 503,
       body = [(''error'', JStr ''Conversion service unavailable''), (''code'', JStr ''SRV-503'')]\<rparr>,
      Map.empty,
      [CacheHas ''FX_RATE_USD_EUR'',
       RateFetch ''https://api.frankfurter.app/latest?from=USD&to=EUR''])"
    using code by (simp add: status_of_def key_eval fx_url_def cache_set_def)
next
  let ?q = "\<lparr>rate = JNum (Fin 3), analysis = ''old'', timestamp = toISOString 1000\<rparr>"
  let ?r = "\<lparr>amount = JNum (Fin 100), from_currency = ''constructor'', to_currency = ''EUR''\<rparr>"
  let ?rs = "[''EUR'' \<mapsto> JNum (Fin 1)]"
  let ?e = "\<lparr>fx = FxOk (Some ?rs), fx_ms = 120, ai = AiError, ai_ms = 300\<rparr>"
  let ?c = "cache_set 1000 Map.empty ''FX_RATE_constructor_EUR'' ?q"
  have thrown: "generateInbuiltAnalysis ''constructor'' ''EUR'' (JNum (Fin 1)) = Inl TypeError"
    by (simp add: generateInbuiltAnalysis_def info_or_neutral_def currencies_get_def
          drivers_phrase_def currencies_def object_prototype_keys_def)
  have "post_api_convert ?e 700000 ?c ?r =
     (\<lparr>status = status_of TypeError,
       body = [(''error'', JStr ''Conversion service unavailable''),
               (''code'', JStr (''SRV-'' @ padStart 3 (digits_of (int (status_of TypeError)))))]\<rparr>,
      ?c(cacheKey (from_currency ?r) (to_currency ?r) := None),
      [CacheHas (cacheKey (from_currency ?r) (to_currency ?r)),
       RateFetch (fx_url (from_currency ?r) (to_currency ?r)),
       CommentaryAttempt (prompt (from_currency ?r) (to_currency ?r)
                            (rates_get ?rs (to_currency ?r)))])"
    by (rule convert_miss_no_analysis)
       (simp_all add: amount_eval cache_has_hit key_eval cache_set_def stdTTL_def
          getMarketAnalysis_def rates_get_def thrown)
  then show "post_api_convert ?e 700000 ?c ?r =
     (\<lparr>status = 500,
       body = [(''error'', JStr ''Conversion service unavailable''), (''code'', JStr ''SRV-500'')]\<rparr>,
      Map.empty,
      [CacheHas ''FX_RATE_constructor_EUR'',
       RateFetch ''https://api.frankfurter.app/latest?from=constructor&to=EUR'',
       CommentaryAttempt (prompt ''constructor'' ''EUR'' (JNum (Fin 1)))])"
    by (simp add: status_of_def status_500 key_eval fx_url_def cache_set_def rates_get_def)
next
  let ?q = "\<lparr>rate = JNum (Fin 3), analysis = ''old'', timestamp = toISOString 1000\<rparr>"
  let ?r = "\<lparr>amount = JNum (Fin 0), from_currency = ''USD'', to_currency = ''EUR''\<rparr>"
  let ?e = "\<lparr>fx = FxOk (Some [''EUR'' \<mapsto> JNum (Fin 1)]), fx_ms = 120, ai = AiText ''ok'', ai_ms = 300\<rparr>"
  let ?c = "cache_set 1000 Map.empty ''FX_RATE_USD_EUR'' ?q"
  show "post_api_convert ?e 700000 ?c ?r =
     (\<lparr>status = 400, body = [(''error'', JStr ''Invalid amount''), (''code'', JStr ''INV-AMT'')]\<rparr>,
      ?c, [])"
    by (rule convert_invalid) (simp add: amount_eval)
qed

section \<open>Serving repeated requests from the cache\<close>

text \<open>
  After a conversion result for one request, a request whose key is the same finds the
  quote of the first: as long as the entry has not expired it is answered from the
  cache, with no outbound call and no change to the cache.
\<close>

lemma served_again:
  assumes same: "cacheKey (from_currency reqb) (to_currency reqb) =
                 cacheKey (from_currency reqa) (to_currency reqa)"
    and first: "post_api_convert ea nowa cz reqa = (resa, ca, effsa)"
    and conv: "is_conversion resa"
    and valid2: "\<not> invalid_amount (amount reqb)"
  shows "\<exists>ent. ca (cacheKey (from_currency reqa) (to_currency reqa)) = Some ent
       \<and> map_of (body resa) ''analysis'' = Some (JStr (analysis (stored ent)))
       \<and> map_of (body resa) ''timestamp'' = Some (JStr (timestamp (stored ent)))
       \<and> live_fetches effsa \<le> 1
       \<and> (fst (cache_has nowa cz (cacheKey (from_currency reqa) (to_currency reqa)))
            \<longrightarrow> cz (cacheKey (from_currency reqa) (to_currency reqa)) = Some ent
               \<and> map_of (body resa) ''rate'' = Some (rate (stored ent)))
       \<and> (\<not> fst (cache_has nowa cz (cacheKey (from_currency reqa) (to_currency reqa)))
            \<longrightarrow> expires ent = nowa + fx_ms ea + ai_ms ea + 600 * 1000
               \<and> timestamp (stored ent) = toISOString (nowa + fx_ms ea + ai_ms ea)
               \<and> (\<forall>rs. fx ea = FxOk (Some rs) \<longrightarrow> rate (stored ent) = rates_get rs (to_currency reqa))
               \<and> (\<exists>n. rate (stored ent) = JNum n
                      \<and> map_of (body resa) ''rate'' = Some (JNum (parse_float_string (toFixed n 4)))))
       \<and> (nowb \<le> expires ent
            \<longrightarrow> post_api_convert eb nowb ca reqb =
                  (\<lparr>status = 200,
                    body = [(''rate'', rate (stored ent)),
                            (''analysis'', JStr (analysis (stored ent))),
                            (''timestamp'', JStr (timestamp (stored ent))),
                            (''cached'', JBool True),
                            (''amount'', JNum (parseFloat (amount reqb))),
                            (''converted_amount'',
                             JStr (toFixed (js_mul (to_number (amount reqb))
                                                   (to_number (rate (stored ent)))) 2))]\<rparr>,
                   ca,
                   [CacheHas (cacheKey (from_currency reqa) (to_currency reqa)),
                    CacheGet (cacheKey (from_currency reqa) (to_currency reqa))]))"
proof -
  let ?k = "cacheKey (from_currency reqa) (to_currency reqa)"
  have conv': "is_conversion (fst (post_api_convert ea nowa cz reqa))"
    using first conv by simp
  from conv' show ?thesis
  proof (cases rule: conversion_cases)
    case (Hit ent)
    have hit: "fst (cache_has nowa cz ?k)"
      using Hit by (simp add: cache_has_hit)
    have r1: "post_api_convert ea nowa cz reqa =
        (\<lparr>status = 200,
          body = [(''rate'', rate (stored ent)),
                  (''analysis'', JStr (analysis (stored ent))),
                  (''timestamp'', JStr (timestamp (stored ent))),
                  (''cached'', JBool True),
                  (''amount'', JNum (parseFloat (amount reqa))),
                  (''converted_amount'',
                   JStr (toFixed (js_mul (to_number (amount reqa)) (to_number (rate (stored ent)))) 2))]\<rparr>,
         cz, [CacheHas ?k, CacheGet ?k])"
      using Hit by (rule convert_hit)
    have ca: "ca = cz" and resa: "map_of (body resa) ''analysis'' = Some (JStr (analysis (stored ent)))"
      and stamp: "map_of (body resa) ''timestamp'' = Some (JStr (timestamp (stored ent)))"
      and rate1: "map_of (body resa) ''rate'' = Some (rate (stored ent))"
      and effsa: "live_fetches effsa \<le> 1"
      using first r1 by (auto simp: live_fetches_def is_fetch_def)
    have again: "post_api_convert eb nowb ca reqb =
                  (\<lparr>status = 200,
                    body = [(''rate'', rate (stored ent)),
                            (''analysis'', JStr (analysis (stored ent))),
                            (''timestamp'', JStr (timestamp (stored ent))),
                            (''cached'', JBool True),
                            (''amount'', JNum (parseFloat (amount reqb))),
                            (''converted_amount'',
                             JStr (toFixed (js_mul (to_number (amount reqb))
                                                   (to_number (rate (stored ent)))) 2))]\<rparr>,
                   ca, [CacheHas ?k, CacheGet ?k])"
      if "nowb \<le> expires ent"
      using convert_hit [where req = reqb and c = ca and ent = ent and now = nowb and e = eb]
        valid2 Hit(2,4) ca same that
      by (simp add: not_less)
    show ?thesis
      using Hit(2) ca resa stamp rate1 effsa hit again by auto
  next
    case (Fresh rs n words)
    let ?t = "nowa + fx_ms ea + ai_ms ea"
    let ?ent = "\<lparr>stored = \<lparr>rate = JNum n, analysis = words, timestamp = toISOString ?t\<rparr>,
                 expires = ?t + 600 * 1000\<rparr>"
    have r1: "post_api_convert ea nowa cz reqa =
     (\<lparr>status = 200,
       body = [(''from_currency'', JStr (from_currency reqa)),
               (''to_currency'', JStr (to_currency reqa)),
               (''rate'', JNum (parse_float_string (toFixed n 4))),
               (''converted_amount'', JStr (toFixed (js_mul (to_number (amount reqa)) n) 2)),
               (''analysis'', JStr words),
               (''timestamp'', JStr (toISOString ?t)),
               (''source'', JStr ''Frankfurter.app'')]\<rparr>,
      cache_set ?t cz ?k \<lparr>rate = JNum n, analysis = words, timestamp = toISOString ?t\<rparr>,
      [CacheHas ?k, RateFetch (fx_url (from_currency reqa) (to_currency reqa)),
       CommentaryAttempt (prompt (from_currency reqa) (to_currency reqa) (JNum n)),
       CacheSet ?k])"
      using Fresh by (rule convert_miss_fresh)
    have ca: "ca ?k = Some ?ent"
      and resa: "map_of (body resa) ''analysis'' = Some (JStr (analysis (stored ?ent)))"
      and stamp: "map_of (body resa) ''timestamp'' = Some (JStr (timestamp (stored ?ent)))"
      and shown: "map_of (body resa) ''rate'' = Some (JNum (parse_float_string (toFixed n 4)))"
      and effsa: "live_fetches effsa \<le> 1"
      using first r1 by (auto simp: live_fetches_def is_fetch_def cache_set_def stdTTL_def)
    have only: "rs' = rs" if "fx ea = FxOk (Some rs')" for rs'
      using that Fresh(3) by simp
    have again: "post_api_convert eb nowb ca reqb =
                  (\<lparr>status = 200,
                    body = [(''rate'', rate (stored ?ent)),
                            (''analysis'', JStr (analysis (stored ?ent))),
                            (''timestamp'', JStr (timestamp (stored ?ent))),
                            (''cached'', JBool True),
                            (''amount'', JNum (parseFloat (amount reqb))),
                            (''converted_amount'',
                             JStr (toFixed (js_mul (to_number (amount reqb))
                                                   (to_number (rate (stored ?ent)))) 2))]\<rparr>,
                   ca, [CacheHas ?k, CacheGet ?k])"
      if "nowb \<le> expires ?ent"
      using convert_hit [where req = reqb and c = ca and ent = ?ent and now = nowb and e = eb]
        valid2 ca same that
      by (simp add: not_less)
    have miss: "\<not> fst (cache_has nowa cz ?k)"
      by (rule Fresh(2))
    show ?thesis
    proof (rule exI [of _ ?ent], intro conjI impI allI)
      show "ca ?k = Some ?ent" by (rule ca)
      show "map_of (body resa) ''analysis'' = Some (JStr (analysis (stored ?ent)))" by (rule resa)
      show "map_of (body resa) ''timestamp'' = Some (JStr (timestamp (stored ?ent)))" by (rule stamp)
      show "live_fetches effsa \<le> 1" by (rule effsa)
      show "cz ?k = Some ?ent" if "fst (cache_has nowa cz ?k)"
        using that miss by simp
      show "map_of (body resa) ''rate'' = Some (rate (stored ?ent))" if "fst (cache_has nowa cz ?k)"
        using that miss by simp
      show "expires ?ent = nowa + fx_ms ea + ai_ms ea + 600 * 1000" by simp
      show "timestamp (stored ?ent) = toISOString (nowa + fx_ms ea + ai_ms ea)" by simp
      show "rate (stored ?ent) = rates_get rs' (to_currency reqa)" if "fx ea = FxOk (Some rs')" for rs'
        using only [OF that] Fresh(4) by simp
      show "\<exists>m. rate (stored ?ent) = JNum m
              \<and> map_of (body resa) ''rate'' = Some (JNum (parse_float_string (toFixed m 4)))"
        using shown by simp
      show "post_api_convert eb nowb ca reqb =
                  (\<lparr>status = 200,
                    body = [(''rate'', rate (stored ?ent)),
                            (''analysis'', JStr (analysis (stored ?ent))),
                            (''timestamp'', JStr (timestamp (stored ?ent))),
                            (''cached'', JBool True),
                            (''amount'', JNum (parseFloat (amount reqb))),
                            (''converted_amount'',
                             JStr (toFixed (js_mul (to_number (amount reqb))
                                                   (to_number (rate (stored ?ent)))) 2))]\<rparr>,
                   ca, [CacheHas ?k, CacheGet ?k])"
        if "nowb \<le> expires ?ent"
        using that by (rule again)
    qed
  qed
qed




section \<open>The cache key\<close>

text \<open>
  C10. The key is the prefix, the base code, an underscore and the target code, put
  together without escaping, so codes that contain the underscore collide: the pairs
  \<open>(A, B_C)\<close> and \<open>(A_B, C)\<close> are different and have the same key. Hence, once a
  conversion for \<open>(A, B_C)\<close> has returned a result, a request for \<open>(A_B, C)\<close> with an
  amount that passes validation, started before the stored entry expires, is answered
  from that entry: \<^verbatim>\<open>cached: true\<close>, with the rate, analysis and timestamp stored for
  \<open>(A, B_C)\<close>, and with no outbound call.
\<close>

theorem delimiter_collision_served_from_cache:
  "(''A'', ''B_C'') \<noteq> (''A_B'', ''C'')
   \<and> cacheKey ''A'' ''B_C'' = cacheKey ''A_B'' ''C''
   \<and> (post_api_convert ea nowa cz \<lparr>amount = xa, from_currency = ''A'', to_currency = ''B_C''\<rparr>
          = (resa, ca, effsa)
        \<and> is_conversion resa \<and> \<not> invalid_amount xb
      \<longrightarrow> (\<exists>ent. ca (cacheKey ''A'' ''B_C'') = Some ent
             \<and> (nowb \<le> expires ent
                \<longrightarrow> post_api_convert eb nowb ca
                        \<lparr>amount = xb, from_currency = ''A_B'', to_currency = ''C''\<rparr> =
                      (\<lparr>status = 200,
                        body = [(''rate'', rate (stored ent)),
                                (''analysis'', JStr (analysis (stored ent))),
                                (''timestamp'', JStr (timestamp (stored ent))),
                                (''cached'', JBool True),
                                (''amount'', JNum (parseFloat xb)),
                                (''converted_amount'',
                                 JStr (toFixed (js_mul (to_number xb)
                                                       (to_number (rate (stored ent)))) 2))]\<rparr>,
                       ca,
                       [CacheHas (cacheKey ''A'' ''B_C''), CacheGet (cacheKey ''A'' ''B_C'')]))))"
proof (intro conjI impI)
  show "(''A'', ''B_C'') \<noteq> (''A_B'', ''C'')" by simp
  show same: "cacheKey ''A'' ''B_C'' = cacheKey ''A_B'' ''C''" by (simp add: key_eval)
  let ?ra = "\<lparr>amount = xa, from_currency = ''A'', to_currency = ''B_C''\<rparr>"
  let ?rb = "\<lparr>amount = xb, from_currency = ''A_B'', to_currency = ''C''\<rparr>"
  assume a: "post_api_convert ea nowa cz ?ra = (resa, ca, effsa)
             \<and> is_conversion resa \<and> \<not> invalid_amount xb"
  have k: "cacheKey (from_currency ?rb) (to_currency ?rb) =
           cacheKey (from_currency ?ra) (to_currency ?ra)"
    using same by simp
  have v: "\<not> invalid_amount (amount ?rb)"
    using a by simp
  from a have f: "post_api_convert ea nowa cz ?ra = (resa, ca, effsa)" and cv: "is_conversion resa"
    by simp_all
  from served_again [OF k f cv v, of nowb eb]
  have "\<exists>ent. ca (cacheKey (from_currency ?ra) (to_currency ?ra)) = Some ent
             \<and> (nowb \<le> expires ent
                \<longrightarrow> post_api_convert eb nowb ca ?rb =
                      (\<lparr>status = 200,
                        body = [(''rate'', rate (stored ent)),
                                (''analysis'', JStr (analysis (stored ent))),
                                (''timestamp'', JStr (timestamp (stored ent))),
                                (''cached'', JBool True),
                                (''amount'', JNum (parseFloat (amount ?rb))),
                                (''converted_amount'',
                                 JStr (toFixed (js_mul (to_number (amount ?rb))
                                                       (to_number (rate (stored ent)))) 2))]\<rparr>,
                       ca,
                       [CacheHas (cacheKey (from_currency ?ra) (to_currency ?ra)),
                        CacheGet (cacheKey (from_currency ?ra) (to_currency ?ra))]))"
    by blast
  then show "\<exists>ent. ca (cacheKey ''A'' ''B_C'') = Some ent
             \<and> (nowb \<le> expires ent
                \<longrightarrow> post_api_convert eb nowb ca ?rb =
                      (\<lparr>status = 200,
                        body = [(''rate'', rate (stored ent)),
                                (''analysis'', JStr (analysis (stored ent))),
                                (''timestamp'', JStr (timestamp (stored ent))),
                                (''cached'', JBool True),
                                (''amount'', JNum (parseFloat xb)),
                                (''converted_amount'',
                                 JStr (toFixed (js_mul (to_number xb)
                                                       (to_number (rate (stored ent)))) 2))]\<rparr>,
                       ca,
                       [CacheHas (cacheKey ''A'' ''B_C''), CacheGet (cacheKey ''A'' ''B_C'')]))"
    by simp
qed

theorem delimiter_collision_served_from_cache_witness:
  "case post_api_convert
          \<lparr>fx = FxOk (Some [''B_C'' \<mapsto> JNum (Fin 2)]), fx_ms = 120, ai = AiText ''ok'', ai_ms = 300\<rparr>
          1000 Map.empty
          \<lparr>amount = JNum (Fin 100), from_currency = ''A'', to_currency = ''B_C''\<rparr> of
     (resa, ca, effsa) \<Rightarrow>
       post_api_convert \<lparr>fx = FxError None, fx_ms = 0, ai = AiError, ai_ms = 0\<rparr> 2000 ca
          \<lparr>amount = JNum (Fin 5), from_currency = ''A_B'', to_currency = ''C''\<rparr> =
       (\<lparr>status = 200,
         body = [(''rate'', JNum (Fin 2)),
                 (''analysis'', JStr ''ok''),
                 (''timestamp'', JStr (toISOString 1420)),
                 (''cached'', JBool True),
                 (''amount'', JNum (parseFloat (JNum (Fin 5)))),
                 (''converted_amount'', JStr ''10.00'')]\<rparr>,
        ca,
        [CacheHas ''FX_RATE_A_B_C'', CacheGet ''FX_RATE_A_B_C''])"
proof -
  let ?e = "\<lparr>fx = FxOk (Some [''B_C'' \<mapsto> JNum (Fin 2)]), fx_ms = 120, ai = AiText ''ok'', ai_ms = 300\<rparr>"
  let ?r = "\<lparr>amount = JNum (Fin 100), from_currency = ''A'', to_currency = ''B_C''\<rparr>"
  have first: "post_api_convert ?e 1000 Map.empty ?r =
     (\<lparr>status = 200,
       body = [(''from_currency'', JStr (from_currency ?r)),
               (''to_currency'', JStr (to_currency ?r)),
               (''rate'', JNum (parse_float_string (toFixed (Fin 2) 4))),
               (''converted_amount'', JStr (toFixed (js_mul (to_number (amount ?r)) (Fin 2)) 2)),
               (''analysis'', JStr ''ok''),
               (''timestamp'', JStr (toISOString (1000 + fx_ms ?e + ai_ms ?e))),
               (''source'', JStr ''Frankfurter.app'')]\<rparr>,
      cache_set (1000 + fx_ms ?e + ai_ms ?e) Map.empty (cacheKey (from_currency ?r) (to_currency ?r))
        \<lparr>rate = JNum (Fin 2), analysis = ''ok'', timestamp = toISOString (1000 + fx_ms ?e + ai_ms ?e)\<rparr>,
      [CacheHas (cacheKey (from_currency ?r) (to_currency ?r)),
       RateFetch (fx_url (from_currency ?r) (to_currency ?r)),
       CommentaryAttempt (prompt (from_currency ?r) (to_currency ?r) (JNum (Fin 2))),
       CacheSet (cacheKey (from_currency ?r) (to_currency ?r))])"
    (is "_ = (?res, ?ca, ?effs)")
    by (rule convert_miss_fresh [where rs = "[''B_C'' \<mapsto> JNum (Fin 2)]"])
       (simp_all add: amount_eval cache_has_hit rates_get_def getMarketAnalysis_def)
  have conv: "is_conversion ?res"
    by (simp add: is_conversion_def)
  have valid: "\<not> invalid_amount (JNum (Fin 5))"
    by (simp add: amount_eval)
  have ten: "toFixed (js_mul (Fin 5) (Fin 2)) 2 = ''10.00''"
    by (simp add: double_eval fixed_eval)
  show ?thesis
    using delimiter_collision_served_from_cache
      [where ea = ?e and nowa = 1000 and cz = Map.empty and xa = "JNum (Fin 100)"
         and resa = ?res and ca = ?ca and effsa = ?effs and xb = "JNum (Fin 5)"
         and nowb = 2000 and eb = "\<lparr>fx = FxError None, fx_ms = 0, ai = AiError, ai_ms = 0\<rparr>"]
      first conv valid ten
    by (auto simp: key_eval cache_set_def stdTTL_def)
qed


lemma miss_not_marked_cached:
  assumes "\<not> invalid_amount (amount req)"
    and "\<not> fst (cache_has now c (cacheKey (from_currency req) (to_currency req)))"
  shows "map_of (body (fst (post_api_convert e now c req))) ''cached'' = None"
proof (cases "fx e")
  case (FxError st)
  then show ?thesis
    using convert_miss_rejected [where req = req and c = c and e = e and now = now, OF assms]
    by simp
next
  case (FxOk rso)
  show ?thesis
  proof (cases rso)
    case None
    then show ?thesis
      using FxOk convert_miss_no_rates [where req = req and c = c and e = e and now = now, OF assms]
      by simp
  next
    case (Some rs)
    let ?r = "rates_get rs (to_currency req)"
    show ?thesis
    proof (cases "fst (getMarketAnalysis (ai e) (from_currency req) (to_currency req) ?r)")
      case (Inl err)
      then show ?thesis
        using FxOk Some
          convert_miss_no_analysis [where req = req and c = c and e = e and now = now, OF assms]
        by simp
    next
      case (Inr words)
      show ?thesis
      proof (cases "\<exists>n. ?r = JNum n")
        case True
        then obtain n where "?r = JNum n" ..
        then show ?thesis
          using FxOk Some Inr
            convert_miss_fresh [where req = req and c = c and e = e and now = now, OF assms]
          by simp
      next
        case False
        then show ?thesis
          using FxOk Some Inr
            convert_miss_not_a_number [where req = req and c = c and e = e and now = now
              and r = "?r", OF assms]
          by simp
      qed
    qed
  qed
qed

lemma cacheKey_reversed:
  assumes "CHR ''_'' \<notin> set b" and "CHR ''_'' \<notin> set t" and "cacheKey b t = cacheKey t b"
  shows "b = t"
proof -
  have eq: "b @ CHR ''_'' # t = t @ CHR ''_'' # b"
    using assms(3) by (simp add: key_eval)
  have "takeWhile (\<lambda>x. x \<noteq> CHR ''_'') (b @ CHR ''_'' # t) = b"
    using assms(1) by (auto simp: takeWhile_tail)
  moreover have "takeWhile (\<lambda>x. x \<noteq> CHR ''_'') (t @ CHR ''_'' # b) = t"
    using assms(2) by (auto simp: takeWhile_tail)
  ultimately show ?thesis using eq by simp
qed

text \<open>
  C8, as the code has it. The key is not symmetric for codes that are free of the
  delimiter: for two different codes without an underscore the key of \<open>(base, target)\<close>
  differs from the key of \<open>(target, base)\<close>. So when nothing is cached for the reversed
  pair, a request for \<open>(base, target)\<close> leaves it that way, whatever it stores for
  itself, and a following request for \<open>(target, base)\<close> with an amount that passes
  validation is a miss: it makes its own live fetch and its response is not marked as
  cached.
\<close>

theorem reversed_pair_is_a_miss:
  assumes "b \<noteq> t" and "CHR ''_'' \<notin> set b" and "CHR ''_'' \<notin> set t"
  shows "cacheKey b t \<noteq> cacheKey t b
       \<and> (cz (cacheKey t b) = None \<and> \<not> invalid_amount xb
           \<and> post_api_convert ea nowa cz \<lparr>amount = xa, from_currency = b, to_currency = t\<rparr>
               = (resa, ca, effsa)
          \<longrightarrow> ca (cacheKey t b) = None
             \<and> live_fetches (snd (snd (post_api_convert eb nowb ca
                   \<lparr>amount = xb, from_currency = t, to_currency = b\<rparr>))) = 1
             \<and> map_of (body (fst (post_api_convert eb nowb ca
                   \<lparr>amount = xb, from_currency = t, to_currency = b\<rparr>))) ''cached'' = None)"
proof (intro conjI impI)
  show ne: "cacheKey b t \<noteq> cacheKey t b"
    using assms cacheKey_reversed [of b t] by blast
  assume a: "cz (cacheKey t b) = None \<and> \<not> invalid_amount xb
           \<and> post_api_convert ea nowa cz \<lparr>amount = xa, from_currency = b, to_currency = t\<rparr>
               = (resa, ca, effsa)"
  let ?ra = "\<lparr>amount = xa, from_currency = b, to_currency = t\<rparr>"
  let ?rb = "\<lparr>amount = xb, from_currency = t, to_currency = b\<rparr>"
  have "fst (snd (post_api_convert ea nowa cz ?ra)) (cacheKey t b) = cz (cacheKey t b)"
    by (rule convert_other_keys) (use ne in simp)
  with a show none: "ca (cacheKey t b) = None" by simp
  have v: "\<not> invalid_amount (amount ?rb)" using a by simp
  have m: "\<not> fst (cache_has nowb ca (cacheKey (from_currency ?rb) (to_currency ?rb)))"
    using none by (simp add: cache_has_hit)
  show "live_fetches (snd (snd (post_api_convert eb nowb ca ?rb))) = 1"
    using v m by (rule live_fetches_miss)
  show "map_of (body (fst (post_api_convert eb nowb ca ?rb))) ''cached'' = None"
    using v m by (rule miss_not_marked_cached)
qed

theorem reversed_pair_is_a_miss_witness:
  "cacheKey ''USD'' ''EUR'' \<noteq> cacheKey ''EUR'' ''USD''
   \<and> (case post_api_convert
          \<lparr>fx = FxOk (Some [''EUR'' \<mapsto> JNum (Fin 2)]), fx_ms = 120, ai = AiText ''ok'', ai_ms = 300\<rparr>
          1000 Map.empty
          \<lparr>amount = JNum (Fin 100), from_currency = ''USD'', to_currency = ''EUR''\<rparr> of
       (resa, ca, effsa) \<Rightarrow>
          ca (cacheKey ''EUR'' ''USD'') = None
        \<and> live_fetches (snd (snd (post_api_convert
              \<lparr>fx = FxOk (Some [''USD'' \<mapsto> JNum (Fin 3)]), fx_ms = 10, ai = AiText ''ok'', ai_ms = 10\<rparr>
              2000 ca
              \<lparr>amount = JNum (Fin 5), from_currency = ''EUR'', to_currency = ''USD''\<rparr>))) = 1
        \<and> map_of (body (fst (post_api_convert
              \<lparr>fx = FxOk (Some [''USD'' \<mapsto> JNum (Fin 3)]), fx_ms = 10, ai = AiText ''ok'', ai_ms = 10\<rparr>
              2000 ca
              \<lparr>amount = JNum (Fin 5), from_currency = ''EUR'', to_currency = ''USD''\<rparr>))) ''cached'' = None)"
proof -
  let ?ea = "\<lparr>fx = FxOk (Some [''EUR'' \<mapsto> JNum (Fin 2)]), fx_ms = 120, ai = AiText ''ok'', ai_ms = 300\<rparr>"
  let ?ra = "\<lparr>amount = JNum (Fin 100), from_currency = ''USD'', to_currency = ''EUR''\<rparr>"
  obtain resa ca effsa where first: "post_api_convert ?ea 1000 Map.empty ?ra = (resa, ca, effsa)"
    by (cases "post_api_convert ?ea 1000 Map.empty ?ra") blast
  have h1: "''USD'' \<noteq> ''EUR''" and h2: "CHR ''_'' \<notin> set ''USD''" and h3: "CHR ''_'' \<notin> set ''EUR''"
    by simp_all
  have v: "\<not> invalid_amount (JNum (Fin 5))"
    by (simp add: amount_eval)
  show ?thesis
    using reversed_pair_is_a_miss [OF h1 h2 h3, where cz = Map.empty and xb = "JNum (Fin 5)"
        and ea = ?ea and nowa = 1000 and xa = "JNum (Fin 100)" and resa = resa and ca = ca
        and effsa = effsa and nowb = 2000
        and eb = "\<lparr>fx = FxOk (Some [''USD'' \<mapsto> JNum (Fin 3)]), fx_ms = 10, ai = AiText ''ok'', ai_ms = 10\<rparr>"]
      v first
    by simp
qed

text \<open>
  C8, as stated for every pair of distinct codes, fails on codes that contain the
  delimiter: \<open>A_A\<close> and \<open>A\<close> are different, yet the quote cached for \<open>(A_A, A)\<close> answers
  the request for the reversed pair \<open>(A, A_A)\<close>.
\<close>

theorem reversed_pair_counterexample:
  "''A_A'' \<noteq> ''A''
   \<and> (case post_api_convert
          \<lparr>fx = FxOk (Some [''A'' \<mapsto> JNum (Fin 2)]), fx_ms = 120, ai = AiText ''ok'', ai_ms = 300\<rparr>
          1000 Map.empty
          \<lparr>amount = JNum (Fin 100), from_currency = ''A_A'', to_currency = ''A''\<rparr> of
       (resa, ca, effsa) \<Rightarrow>
         post_api_convert \<lparr>fx = FxError None, fx_ms = 0, ai = AiError, ai_ms = 0\<rparr> 2000 ca
            \<lparr>amount = JNum (Fin 5), from_currency = ''A'', to_currency = ''A_A''\<rparr> =
         (\<lparr>status = 200,
           body = [(''rate'', JNum (Fin 2)),
                   (''analysis'', JStr ''ok''),
                   (''timestamp'', JStr (toISOString 1420)),
                   (''cached'', JBool True),
                   (''amount'', JNum (parseFloat (JNum (Fin 5)))),
                   (''converted_amount'', JStr ''10.00'')]\<rparr>,
          ca,
          [CacheHas ''FX_RATE_A_A_A'', CacheGet ''FX_RATE_A_A_A'']))"
proof -
  let ?e = "\<lparr>fx = FxOk (Some [''A'' \<mapsto> JNum (Fin 2)]), fx_ms = 120, ai = AiText ''ok'', ai_ms = 300\<rparr>"
  let ?r = "\<lparr>amount = JNum (Fin 100), from_currency = ''A_A'', to_currency = ''A''\<rparr>"
  let ?rb = "\<lparr>amount = JNum (Fin 5), from_currency = ''A'', to_currency = ''A_A''\<rparr>"
  have first: "post_api_convert ?e 1000 Map.empty ?r =
     (\<lparr>status = 200,
       body = [(''from_currency'', JStr (from_currency ?r)),
               (''to_currency'', JStr (to_currency ?r)),
               (''rate'', JNum (parse_float_string (toFixed (Fin 2) 4))),
               (''converted_amount'', JStr (toFixed (js_mul (to_number (amount ?r)) (Fin 2)) 2)),
               (''analysis'', JStr ''ok''),
               (''timestamp'', JStr (toISOString (1000 + fx_ms ?e + ai_ms ?e))),
               (''source'', JStr ''Frankfurter.app'')]\<rparr>,
      cache_set (1000 + fx_ms ?e + ai_ms ?e) Map.empty (cacheKey (from_currency ?r) (to_currency ?r))
        \<lparr>rate = JNum (Fin 2), analysis = ''ok'', timestamp = toISOString (1000 + fx_ms ?e + ai_ms ?e)\<rparr>,
      [CacheHas (cacheKey (from_currency ?r) (to_currency ?r)),
       RateFetch (fx_url (from_currency ?r) (to_currency ?r)),
       CommentaryAttempt (prompt (from_currency ?r) (to_currency ?r) (JNum (Fin 2))),
       CacheSet (cacheKey (from_currency ?r) (to_currency ?r))])"
    (is "_ = (?res, ?ca, ?effs)")
    by (rule convert_miss_fresh [where rs = "[''A'' \<mapsto> JNum (Fin 2)]"])
       (simp_all add: amount_eval cache_has_hit rates_get_def getMarketAnalysis_def)
  have ten: "toFixed (js_mul (Fin 5) (Fin 2)) 2 = ''10.00''"
    by (simp add: double_eval fixed_eval)
  have "post_api_convert \<lparr>fx = FxError None, fx_ms = 0, ai = AiError, ai_ms = 0\<rparr> 2000 ?ca ?rb =
         (\<lparr>status = 200,
           body = [(''rate'', JNum (Fin 2)),
                   (''analysis'', JStr ''ok''),
                   (''timestamp'', JStr (toISOString 1420)),
                   (''cached'', JBool True),
                   (''amount'', JNum (parseFloat (JNum (Fin 5)))),
                   (''converted_amount'', JStr ''10.00'')]\<rparr>,
          ?ca,
          [CacheHas ''FX_RATE_A_A_A'', CacheGet ''FX_RATE_A_A_A''])"
    using convert_hit [where req = ?rb and c = ?ca and now = 2000
        and e = "\<lparr>fx = FxError None, fx_ms = 0, ai = AiError, ai_ms = 0\<rparr>"
        and ent = "\<lparr>stored = \<lparr>rate = JNum (Fin 2), analysis = ''ok'', timestamp = toISOString 1420\<rparr>,
                    expires = 601420\<rparr>"] ten
    by (simp add: amount_eval key_eval cache_set_def stdTTL_def)
  then show ?thesis
    by (simp add: first)
qed

section \<open>The inbuilt analysis and its caller\<close>


lemma inherited_is_not_own:
  "code \<in> set object_prototype_keys \<Longrightarrow> map_of currencies code = None"
  by (auto simp: object_prototype_keys_def currencies_def)

lemma inherited_has_no_drivers:
  "code \<in> set object_prototype_keys \<Longrightarrow> drivers_phrase (info_or_neutral code) = Inl TypeError"
  by (simp add: info_or_neutral_def currencies_get_def inherited_is_not_own drivers_phrase_def)


lemma drivers_phrase_error: "drivers_phrase info = Inl err \<Longrightarrow> err = TypeError"
  by (simp add: drivers_phrase_def split: option.splits)

lemma unknown_code_is_neutral:
  assumes "map_of currencies code = None" and "code \<notin> set object_prototype_keys"
  shows "info_or_neutral code = neutral_info"
  using assms by (simp add: info_or_neutral_def currencies_get_def)

lemma inherited_base_throws:
  "baseCurrency \<in> set object_prototype_keys \<Longrightarrow>
   generateInbuiltAnalysis baseCurrency targetCurrency r = Inl TypeError"
  by (simp add: generateInbuiltAnalysis_def inherited_has_no_drivers)

lemma inherited_target_throws:
  assumes "targetCurrency \<in> set object_prototype_keys"
  shows "generateInbuiltAnalysis baseCurrency targetCurrency r = Inl TypeError"
proof (cases "drivers_phrase (info_or_neutral baseCurrency)")
  case (Inl err)
  then show ?thesis
    using drivers_phrase_error [OF Inl] by (simp add: generateInbuiltAnalysis_def)
next
  case (Inr phrase)
  then show ?thesis
    using assms by (simp add: generateInbuiltAnalysis_def inherited_has_no_drivers)
qed






text \<open>
  C7 on the code. A code that names a member of \<^verbatim>\<open>Object.prototype\<close> is outside the five
  entries, but \<^verbatim>\<open>currencies[code]\<close> finds the inherited member, which is truthy, so the
  neutral default is not taken; the member has no \<^verbatim>\<open>drivers\<close> and the template throws.
  With base \<open>constructor\<close>, or with target \<open>toString\<close>, the generator returns no text.
\<close>

theorem synthesizer_inherited_code:
  "generateInbuiltAnalysis ''constructor'' ''EUR'' (JNum (Fin 1)) = Inl TypeError
   \<and> generateInbuiltAnalysis ''USD'' ''toString'' (JNum (Fin 1)) = Inl TypeError
   \<and> map_of currencies ''constructor'' = None
   \<and> info_or_neutral ''constructor'' \<noteq> neutral_info"
proof -
  have "''constructor'' \<in> set object_prototype_keys" and "''toString'' \<in> set object_prototype_keys"
    by (simp_all add: object_prototype_keys_def)
  then show ?thesis
    by (simp add: inherited_base_throws inherited_target_throws inherited_is_not_own
        info_or_neutral_def currencies_get_def neutral_info_def)
qed

text \<open>
  C4 on the code. When the generative-text service fails, \<open>getMarketAnalysis\<close> returns
  what the generator returns, after one attempt; for a code that names a member of
  \<^verbatim>\<open>Object.prototype\<close> that is the generator's \<^verbatim>\<open>TypeError\<close>, which leaves
  \<open>getMarketAnalysis\<close> and reaches the caller of the endpoint as \<^verbatim>\<open>SRV-500\<close>.
\<close>

theorem commentary_failure_surfaces:
  "getMarketAnalysis AiError ''constructor'' ''EUR'' (JNum (Fin 1)) =
     (Inl TypeError, [CommentaryAttempt (prompt ''constructor'' ''EUR'' (JNum (Fin 1)))])
   \<and> fst (post_api_convert
            \<lparr>fx = FxOk (Some [''EUR'' \<mapsto> JNum (Fin 1)]), fx_ms = 120, ai = AiError, ai_ms = 300\<rparr>
            1000 Map.empty
            \<lparr>amount = JNum (Fin 100), from_currency = ''constructor'', to_currency = ''EUR''\<rparr>) =
       \<lparr>status = 500,
        body = [(''error'', JStr ''Conversion service unavailable''), (''code'', JStr ''SRV-500'')]\<rparr>"
proof -
  let ?e = "\<lparr>fx = FxOk (Some [''EUR'' \<mapsto> JNum (Fin 1)]), fx_ms = 120, ai = AiError, ai_ms = 300\<rparr>"
  let ?r = "\<lparr>amount = JNum (Fin 100), from_currency = ''constructor'', to_currency = ''EUR''\<rparr>"
  have inh: "''constructor'' \<in> set object_prototype_keys"
    by (simp add: object_prototype_keys_def)
  have g: "getMarketAnalysis AiError ''constructor'' ''EUR'' (JNum (Fin 1)) =
     (Inl TypeError, [CommentaryAttempt (prompt ''constructor'' ''EUR'' (JNum (Fin 1)))])"
    by (simp add: getMarketAnalysis_def inherited_base_throws [OF inh])
  have "post_api_convert ?e 1000 Map.empty ?r =
     (\<lparr>status = status_of TypeError,
       body = [(''error'', JStr ''Conversion service unavailable''),
               (''code'', JStr (''SRV-'' @ padStart 3 (digits_of (int (status_of TypeError)))))]\<rparr>,
      Map.empty(cacheKey (from_currency ?r) (to_currency ?r) := None),
      [CacheHas (cacheKey (from_currency ?r) (to_currency ?r)),
       RateFetch (fx_url (from_currency ?r) (to_currency ?r)),
       CommentaryAttempt (prompt (from_currency ?r) (to_currency ?r)
                            (rates_get [''EUR'' \<mapsto> JNum (Fin 1)] (to_currency ?r)))])"
    by (rule convert_miss_no_analysis)
       (simp_all add: amount_eval cache_has_hit rates_get_def g)
  then show ?thesis
    using g by (simp add: status_of_def status_500)
qed

section \<open>Validation of the amount\<close>

text \<open>
  The guard rejects the amounts it was written for: a missing or \<^verbatim>\<open>null\<close> amount, zero,
  negative numbers, \<^verbatim>\<open>NaN\<close>, text that is no number and the empty string. A rejected
  request gets status 400 with code \<^verbatim>\<open>INV-AMT\<close> and neither reads the cache nor calls
  out (\<open>convert_invalid\<close>).
\<close>

lemma listed_amounts_invalid:
  "invalid_amount JUndefined"
  "invalid_amount JNull"
  "q \<le> 0 \<Longrightarrow> invalid_amount (JNum (Fin q))"
  "invalid_amount (JNum NaN)"
  "invalid_amount (JNum NegInf)"
  "invalid_amount (JBool False)"
  "invalid_amount (JStr '''')"
  "invalid_amount (JStr ''abc'')"
  by (simp_all add: amount_eval string_to_number_def parse_decimal_def parse_unsigned_def
      is_space_def is_digit_def)

text \<open>
  C5 on the code. The guard coerces before it tests, so \<^verbatim>\<open>true\<close> (which is not a number)
  counts as 1, and it has no test for finiteness, so \<^verbatim>\<open>Infinity\<close> (what \<^verbatim>\<open>JSON.parse\<close> makes
  of \<^verbatim>\<open>1e999\<close>) passes: both requests go on to the cache and to the rate provider and are
  answered with status 200.
\<close>

theorem unchecked_amounts_converted:
  "(case post_api_convert
          \<lparr>fx = FxOk (Some [''EUR'' \<mapsto> JNum (Fin 2)]), fx_ms = 120, ai = AiText ''ok'', ai_ms = 300\<rparr>
          1000 Map.empty
          \<lparr>amount = JBool True, from_currency = ''USD'', to_currency = ''EUR''\<rparr> of
        (res, c, effs) \<Rightarrow>
          status res = 200
        \<and> map_of (body res) ''converted_amount'' = Some (JStr ''2.00'')
        \<and> effs = [CacheHas ''FX_RATE_USD_EUR'',
                   RateFetch ''https://api.frankfurter.app/latest?from=USD&to=EUR'',
                   CommentaryAttempt (prompt ''USD'' ''EUR'' (JNum (Fin 2))),
                   CacheSet ''FX_RATE_USD_EUR''])
   \<and> (case post_api_convert
          \<lparr>fx = FxOk (Some [''EUR'' \<mapsto> JNum (Fin 2)]), fx_ms = 120, ai = AiText ''ok'', ai_ms = 300\<rparr>
          1000 Map.empty
          \<lparr>amount = JNum PosInf, from_currency = ''USD'', to_currency = ''EUR''\<rparr> of
        (res, c, effs) \<Rightarrow>
          status res = 200
        \<and> map_of (body res) ''converted_amount'' = Some (JStr ''Infinity'')
        \<and> live_fetches effs = 1)"
proof -
  let ?e = "\<lparr>fx = FxOk (Some [''EUR'' \<mapsto> JNum (Fin 2)]), fx_ms = 120, ai = AiText ''ok'', ai_ms = 300\<rparr>"
  let ?rt = "\<lparr>amount = JBool True, from_currency = ''USD'', to_currency = ''EUR''\<rparr>"
  let ?ri = "\<lparr>amount = JNum PosInf, from_currency = ''USD'', to_currency = ''EUR''\<rparr>"
  have vt: "\<not> invalid_amount (JBool True)" and vi: "\<not> invalid_amount (JNum PosInf)"
    by (simp_all add: amount_eval)
  have two: "toFixed (js_mul (Fin 1) (Fin 2)) 2 = ''2.00''"
    by (simp add: double_eval fixed_eval)
  have t: "post_api_convert ?e 1000 Map.empty ?rt =
     (\<lparr>status = 200,
       body = [(''from_currency'', JStr (from_currency ?rt)),
               (''to_currency'', JStr (to_currency ?rt)),
               (''rate'', JNum (parse_float_string (toFixed (Fin 2) 4))),
               (''converted_amount'', JStr (toFixed (js_mul (to_number (amount ?rt)) (Fin 2)) 2)),
               (''analysis'', JStr ''ok''),
               (''timestamp'', JStr (toISOString (1000 + fx_ms ?e + ai_ms ?e))),
               (''source'', JStr ''Frankfurter.app'')]\<rparr>,
      cache_set (1000 + fx_ms ?e + ai_ms ?e) Map.empty (cacheKey (from_currency ?rt) (to_currency ?rt))
        \<lparr>rate = JNum (Fin 2), analysis = ''ok'', timestamp = toISOString (1000 + fx_ms ?e + ai_ms ?e)\<rparr>,
      [CacheHas (cacheKey (from_currency ?rt) (to_currency ?rt)),
       RateFetch (fx_url (from_currency ?rt) (to_currency ?rt)),
       CommentaryAttempt (prompt (from_currency ?rt) (to_currency ?rt) (JNum (Fin 2))),
       CacheSet (cacheKey (from_currency ?rt) (to_currency ?rt))])"
    by (rule convert_miss_fresh [where rs = "[''EUR'' \<mapsto> JNum (Fin 2)]"])
       (simp_all add: vt cache_has_hit rates_get_def getMarketAnalysis_def)
  have i: "post_api_convert ?e 1000 Map.empty ?ri =
     (\<lparr>status = 200,
       body = [(''from_currency'', JStr (from_currency ?ri)),
               (''to_currency'', JStr (to_currency ?ri)),
               (''rate'', JNum (parse_float_string (toFixed (Fin 2) 4))),
               (''converted_amount'', JStr (toFixed (js_mul (to_number (amount ?ri)) (Fin 2)) 2)),
               (''analysis'', JStr ''ok''),
               (''timestamp'', JStr (toISOString (1000 + fx_ms ?e + ai_ms ?e))),
               (''source'', JStr ''Frankfurter.app'')]\<rparr>,
      cache_set (1000 + fx_ms ?e + ai_ms ?e) Map.empty (cacheKey (from_currency ?ri) (to_currency ?ri))
        \<lparr>rate = JNum (Fin 2), analysis = ''ok'', timestamp = toISOString (1000 + fx_ms ?e + ai_ms ?e)\<rparr>,
      [CacheHas (cacheKey (from_currency ?ri) (to_currency ?ri)),
       RateFetch (fx_url (from_currency ?ri) (to_currency ?ri)),
       CommentaryAttempt (prompt (from_currency ?ri) (to_currency ?ri) (JNum (Fin 2))),
       CacheSet (cacheKey (from_currency ?ri) (to_currency ?ri))])"
    by (rule convert_miss_fresh [where rs = "[''EUR'' \<mapsto> JNum (Fin 2)]"])
       (simp_all add: vi cache_has_hit rates_get_def getMarketAnalysis_def)
  show ?thesis
    using two by (simp add: t i key_eval fx_url_def live_fetches_def is_fetch_def)
qed

section \<open>Cache writes of failing requests\<close>

text \<open>
  C6 on the code. The handler stores the quote before it formats the rate. When the
  provider's reply has a \<^verbatim>\<open>rates\<close> object without the target code, the rate is
  \<^verbatim>\<open>undefined\<close>: the quote is stored, then \<^verbatim>\<open>rate.toFixed(4)\<close> throws and the request
  fails with \<^verbatim>\<open>SRV-500\<close>. The entry stays, and the next request for the pair is answered
  from it, with \<^verbatim>\<open>converted_amount\<close> \<open>NaN\<close>.
\<close>

theorem failed_request_leaves_entry:
  "case post_api_convert
          \<lparr>fx = FxOk (Some Map.empty), fx_ms = 120, ai = AiText ''ok'', ai_ms = 300\<rparr>
          1000 Map.empty
          \<lparr>amount = JNum (Fin 100), from_currency = ''USD'', to_currency = ''EUR''\<rparr> of
     (res, c, effs) \<Rightarrow>
        res = \<lparr>status = 500,
               body = [(''error'', JStr ''Conversion service unavailable''),
                       (''code'', JStr ''SRV-500'')]\<rparr>
      \<and> c ''FX_RATE_USD_EUR'' =
          Some \<lparr>stored = \<lparr>rate = JUndefined, analysis = ''ok'', timestamp = toISOString 1420\<rparr>,
                expires = 601420\<rparr>
      \<and> fst (post_api_convert \<lparr>fx = FxError None, fx_ms = 0, ai = AiError, ai_ms = 0\<rparr> 2000 c
               \<lparr>amount = JNum (Fin 5), from_currency = ''USD'', to_currency = ''EUR''\<rparr>) =
          \<lparr>status = 200,
           body = [(''rate'', JUndefined),
                   (''analysis'', JStr ''ok''),
                   (''timestamp'', JStr (toISOString 1420)),
                   (''cached'', JBool True),
                   (''amount'', JNum (parseFloat (JNum (Fin 5)))),
                   (''converted_amount'', JStr ''NaN'')]\<rparr>"
proof -
  let ?e = "\<lparr>fx = FxOk (Some Map.empty), fx_ms = 120, ai = AiText ''ok'', ai_ms = 300\<rparr>"
  let ?r = "\<lparr>amount = JNum (Fin 100), from_currency = ''USD'', to_currency = ''EUR''\<rparr>"
  let ?rb = "\<lparr>amount = JNum (Fin 5), from_currency = ''USD'', to_currency = ''EUR''\<rparr>"
  let ?ent = "\<lparr>stored = \<lparr>rate = JUndefined, analysis = ''ok'', timestamp = toISOString 1420\<rparr>,
               expires = 601420\<rparr>"
  have first: "post_api_convert ?e 1000 Map.empty ?r =
     (\<lparr>status = 500,
       body = [(''error'', JStr ''Conversion service unavailable''), (''code'', JStr ''SRV-500'')]\<rparr>,
      cache_set (1000 + fx_ms ?e + ai_ms ?e) Map.empty (cacheKey (from_currency ?r) (to_currency ?r))
        \<lparr>rate = JUndefined, analysis = ''ok'', timestamp = toISOString (1000 + fx_ms ?e + ai_ms ?e)\<rparr>,
      [CacheHas (cacheKey (from_currency ?r) (to_currency ?r)),
       RateFetch (fx_url (from_currency ?r) (to_currency ?r)),
       CommentaryAttempt (prompt (from_currency ?r) (to_currency ?r) JUndefined),
       CacheSet (cacheKey (from_currency ?r) (to_currency ?r))])"
    (is "_ = (?res, ?c, ?effs)")
    by (rule convert_miss_not_a_number [where rs = Map.empty])
       (simp_all add: amount_eval cache_has_hit rates_get_def getMarketAnalysis_def
         object_prototype_keys_def)
  have c: "?c ''FX_RATE_USD_EUR'' = Some ?ent"
    by (simp add: cache_set_def stdTTL_def key_eval)
  have "post_api_convert \<lparr>fx = FxError None, fx_ms = 0, ai = AiError, ai_ms = 0\<rparr> 2000 ?c ?rb =
     (\<lparr>status = 200,
       body = [(''rate'', rate (stored ?ent)),
               (''analysis'', JStr (analysis (stored ?ent))),
               (''timestamp'', JStr (timestamp (stored ?ent))),
               (''cached'', JBool True),
               (''amount'', JNum (parseFloat (amount ?rb))),
               (''converted_amount'',
                JStr (toFixed (js_mul (to_number (amount ?rb)) (to_number (rate (stored ?ent)))) 2))]\<rparr>,
      ?c,
      [CacheHas (cacheKey (from_currency ?rb) (to_currency ?rb)),
       CacheGet (cacheKey (from_currency ?rb) (to_currency ?rb))])"
    by (rule convert_hit) (simp_all add: amount_eval key_eval cache_set_def stdTTL_def)
  then show ?thesis
    using c by (simp add: first)
qed

section \<open>The response to a fresh conversion\<close>

text \<open>
  C1, as the code has it. For a request whose amount is a positive finite number and
  whose pair misses the cache, when the rate provider answers with a finite number for
  the target code and a commentary is obtained, the response has status 200 and
  exactly the members \<^verbatim>\<open>from_currency\<close>, \<^verbatim>\<open>to_currency\<close>, \<^verbatim>\<open>rate\<close>, \<^verbatim>\<open>converted_amount\<close>,
  \<^verbatim>\<open>analysis\<close>, \<^verbatim>\<open>timestamp\<close> and \<^verbatim>\<open>source\<close>: there is no \<^verbatim>\<open>cached\<close> member. The source is
  \<^verbatim>\<open>Frankfurter.app\<close>, the rate is \<^verbatim>\<open>parseFloat(rate.toFixed(4))\<close> on the provider's rate,
  and \<^verbatim>\<open>converted_amount\<close> is the string \<^verbatim>\<open>(amount * rate).toFixed(2)\<close>: when the product
  (a double) is below \<open>10 ^ 21\<close> in magnitude, that is the product rounded half up to
  hundredths, printed with exactly two decimal digits. For a rate below \<open>10 ^ 21\<close> in
  magnitude the \<^verbatim>\<open>rate\<close> member is the double nearest to the rate rounded half up to
  four decimal digits.
\<close>

theorem fresh_conversion_result:
  assumes "amount req = JNum (Fin a)" and "0 < a"
    and "\<not> fst (cache_has now c (cacheKey (from_currency req) (to_currency req)))"
    and "fx e = FxOk (Some rs)"
    and "rs (to_currency req) = Some (JNum (Fin r))"
    and "fst (getMarketAnalysis (ai e) (from_currency req) (to_currency req) (JNum (Fin r))) = Inr words"
  shows "fst (post_api_convert e now c req) =
           \<lparr>status = 200,
            body = [(''from_currency'', JStr (from_currency req)),
                    (''to_currency'', JStr (to_currency req)),
                    (''rate'', JNum (parse_float_string (toFixed (Fin r) 4))),
                    (''converted_amount'', JStr (toFixed (js_mul (Fin a) (Fin r)) 2)),
                    (''analysis'', JStr words),
                    (''timestamp'', JStr (toISOString (now + fx_ms e + ai_ms e))),
                    (''source'', JStr ''Frankfurter.app'')]\<rparr>
       \<and> map_of (body (fst (post_api_convert e now c req))) ''cached'' = None
       \<and> (js_mul (Fin a) (Fin r) = Fin p \<and> \<bar>p\<bar> < 10 ^ 21
          \<longrightarrow> map_of (body (fst (post_api_convert e now c req))) ''converted_amount'' =
               Some (JStr ((if p < 0 then ''-'' else '''')
                           @ digits_of (\<lfloor>\<bar>p\<bar> * 100 + 1 / 2\<rfloor> div 100) @ ''.''
                           @ [digit_char (\<lfloor>\<bar>p\<bar> * 100 + 1 / 2\<rfloor> mod 100 div 10),
                              digit_char (\<lfloor>\<bar>p\<bar> * 100 + 1 / 2\<rfloor> mod 10)])))
       \<and> (\<bar>r\<bar> < 10 ^ 21
          \<longrightarrow> map_of (body (fst (post_api_convert e now c req))) ''rate'' =
               Some (JNum (if r < 0
                           then js_neg (to_double (of_int \<lfloor>\<bar>r\<bar> * 10 ^ 4 + 1 / 2\<rfloor> / 10 ^ 4))
                           else to_double (of_int \<lfloor>\<bar>r\<bar> * 10 ^ 4 + 1 / 2\<rfloor> / 10 ^ 4))))"
proof -
  have valid: "\<not> invalid_amount (amount req)"
    using assms(1,2) by (simp add: amount_eval)
  have got: "rates_get rs (to_currency req) = JNum (Fin r)"
    using assms(5) by (simp add: rates_get_def)
  have res: "fst (post_api_convert e now c req) =
           \<lparr>status = 200,
            body = [(''from_currency'', JStr (from_currency req)),
                    (''to_currency'', JStr (to_currency req)),
                    (''rate'', JNum (parse_float_string (toFixed (Fin r) 4))),
                    (''converted_amount'', JStr (toFixed (js_mul (Fin a) (Fin r)) 2)),
                    (''analysis'', JStr words),
                    (''timestamp'', JStr (toISOString (now + fx_ms e + ai_ms e))),
                    (''source'', JStr ''Frankfurter.app'')]\<rparr>"
    using convert_miss_fresh [OF valid assms(3,4) got assms(6)] assms(1) by simp
  have two: "map_of (body (fst (post_api_convert e now c req))) ''converted_amount'' =
               Some (JStr ((if p < 0 then ''-'' else '''')
                           @ digits_of (\<lfloor>\<bar>p\<bar> * 100 + 1 / 2\<rfloor> div 100) @ ''.''
                           @ [digit_char (\<lfloor>\<bar>p\<bar> * 100 + 1 / 2\<rfloor> mod 100 div 10),
                              digit_char (\<lfloor>\<bar>p\<bar> * 100 + 1 / 2\<rfloor> mod 10)]))"
    if "js_mul (Fin a) (Fin r) = Fin p \<and> \<bar>p\<bar> < 10 ^ 21"
  proof -
    have "toFixed (js_mul (Fin a) (Fin r)) 2 = toFixed (Fin p) 2"
      using that by (simp only:)
    then show ?thesis
      using that toFixed_two [of p] by (simp only: res) simp
  qed
  have four: "map_of (body (fst (post_api_convert e now c req))) ''rate'' =
               Some (JNum (if r < 0
                           then js_neg (to_double (of_int \<lfloor>\<bar>r\<bar> * 10 ^ 4 + 1 / 2\<rfloor> / 10 ^ 4))
                           else to_double (of_int \<lfloor>\<bar>r\<bar> * 10 ^ 4 + 1 / 2\<rfloor> / 10 ^ 4)))"
    if "\<bar>r\<bar> < 10 ^ 21"
    using rate_display [OF that] by (simp only: res) simp
  have none: "map_of (body (fst (post_api_convert e now c req))) ''cached'' = None"
    by (simp add: res)
  show ?thesis
    using res none two four by blast
qed

theorem fresh_conversion_result_witness:
  "fst (post_api_convert
          \<lparr>fx = FxOk (Some [''EUR'' \<mapsto> JNum (Fin 2)]), fx_ms = 120, ai = AiText ''ok'', ai_ms = 300\<rparr>
          1000 Map.empty
          \<lparr>amount = JNum (Fin 100), from_currency = ''USD'', to_currency = ''EUR''\<rparr>) =
     \<lparr>status = 200,
      body = [(''from_currency'', JStr ''USD''),
              (''to_currency'', JStr ''EUR''),
              (''rate'', JNum (Fin 2)),
              (''converted_amount'', JStr ''200.00''),
              (''analysis'', JStr ''ok''),
              (''timestamp'', JStr (toISOString 1420)),
              (''source'', JStr ''Frankfurter.app'')]\<rparr>"
proof -
  let ?e = "\<lparr>fx = FxOk (Some [''EUR'' \<mapsto> JNum (Fin 2)]), fx_ms = 120, ai = AiText ''ok'', ai_ms = 300\<rparr>"
  let ?r = "\<lparr>amount = JNum (Fin 100), from_currency = ''USD'', to_currency = ''EUR''\<rparr>"
  have h1: "amount ?r = JNum (Fin 100)" and h2: "(0::rat) < 100"
    and h3: "\<not> fst (cache_has 1000 Map.empty (cacheKey (from_currency ?r) (to_currency ?r)))"
    and h4: "fx ?e = FxOk (Some [''EUR'' \<mapsto> JNum (Fin 2)])"
    and h5: "[''EUR'' \<mapsto> JNum (Fin 2)] (to_currency ?r) = Some (JNum (Fin 2))"
    and h6: "fst (getMarketAnalysis (ai ?e) (from_currency ?r) (to_currency ?r) (JNum (Fin 2))) = Inr ''ok''"
    by (simp_all add: cache_has_hit getMarketAnalysis_def)
  have prod: "js_mul (Fin 100) (Fin 2) = Fin 200 \<and> \<bar>200::rat\<bar> < 10 ^ 21"
    by (simp add: double_eval)
  have shown: "parse_float_string (toFixed (Fin 2) 4) = Fin 2"
    by (simp add: fixed_eval parse_eval double_eval)
  have digits: "digits_of (\<lfloor>\<bar>200::rat\<bar> * 100 + 1 / 2\<rfloor> div 100) = ''200''"
    by (simp add: digits_eval floor_rat_numeral)
  have small: "\<bar>2::rat\<bar> < 10 ^ 21"
    by simp
  have rounded: "to_double (of_int \<lfloor>\<bar>2::rat\<bar> * 10 ^ 4 + 1 / 2\<rfloor> / 10 ^ 4) = Fin 2"
    by (simp add: double_eval)
  show ?thesis
    using fresh_conversion_result [OF h1 h2 h3 h4 h5 h6, of 200] prod shown digits small rounded
    by (simp add: fixed_eval)
qed

text \<open>
  C1 as stated fails twice on one request: the fresh response has no \<^verbatim>\<open>cached\<close> member
  at all, and for the valid amount \<open>10 ^ 21\<close> at rate 1 \<^verbatim>\<open>toFixed(2)\<close> falls back to the
  exponent form, without decimal digits.
\<close>

theorem fresh_conversion_counterexample:
  "map_of (body (fst (post_api_convert
          \<lparr>fx = FxOk (Some [''EUR'' \<mapsto> JNum (Fin 1)]), fx_ms = 120, ai = AiText ''ok'', ai_ms = 300\<rparr>
          1000 Map.empty
          \<lparr>amount = JNum (Fin 1000000000000000000000), from_currency = ''USD'',
            to_currency = ''EUR''\<rparr>))) ''cached'' = None
   \<and> map_of (body (fst (post_api_convert
          \<lparr>fx = FxOk (Some [''EUR'' \<mapsto> JNum (Fin 1)]), fx_ms = 120, ai = AiText ''ok'', ai_ms = 300\<rparr>
          1000 Map.empty
          \<lparr>amount = JNum (Fin 1000000000000000000000), from_currency = ''USD'',
            to_currency = ''EUR''\<rparr>))) ''converted_amount'' = Some (JStr ''1e+21'')"
proof -
  let ?e = "\<lparr>fx = FxOk (Some [''EUR'' \<mapsto> JNum (Fin 1)]), fx_ms = 120, ai = AiText ''ok'', ai_ms = 300\<rparr>"
  let ?r = "\<lparr>amount = JNum (Fin 1000000000000000000000), from_currency = ''USD'', to_currency = ''EUR''\<rparr>"
  have prod: "js_mul (Fin 1000000000000000000000) (Fin 1) = Fin 1000000000000000000000"
    by (simp add: double_eval)
  have str: "number_to_string (Fin 1000000000000000000000) = ''1e+21''"
    by (simp add: string_eval)
  have "post_api_convert ?e 1000 Map.empty ?r =
     (\<lparr>status = 200,
       body = [(''from_currency'', JStr (from_currency ?r)),
               (''to_currency'', JStr (to_currency ?r)),
               (''rate'', JNum (parse_float_string (toFixed (Fin 1) 4))),
               (''converted_amount'', JStr (toFixed (js_mul (to_number (amount ?r)) (Fin 1)) 2)),
               (''analysis'', JStr ''ok''),
               (''timestamp'', JStr (toISOString (1000 + fx_ms ?e + ai_ms ?e))),
               (''source'', JStr ''Frankfurter.app'')]\<rparr>,
      cache_set (1000 + fx_ms ?e + ai_ms ?e) Map.empty (cacheKey (from_currency ?r) (to_currency ?r))
        \<lparr>rate = JNum (Fin 1), analysis = ''ok'', timestamp = toISOString (1000 + fx_ms ?e + ai_ms ?e)\<rparr>,
      [CacheHas (cacheKey (from_currency ?r) (to_currency ?r)),
       RateFetch (fx_url (from_currency ?r) (to_currency ?r)),
       CommentaryAttempt (prompt (from_currency ?r) (to_currency ?r) (JNum (Fin 1))),
       CacheSet (cacheKey (from_currency ?r) (to_currency ?r))])"
    by (rule convert_miss_fresh [where rs = "[''EUR'' \<mapsto> JNum (Fin 1)]"])
       (simp_all add: amount_eval cache_has_hit rates_get_def getMarketAnalysis_def)
  then show ?thesis
    using prod str by simp
qed

end
